theory Spec2Isabelle
  imports Complex_Main "HOL-Library.Sublist"
begin

section \<open>Python strings\<close>

text \<open>
  A Python \<open>str\<close> is the list of its code points: \<open>len\<close> is the length of the list, a slice
  \<open>s[:n]\<close> is \<open>take n s\<close>, \<open>+\<close> is \<open>@\<close>. The string literals of the source are written
  \<open>asc ''...''\<close> for their ASCII parts, with the other code points as numbers.
\<close>

type_synonym str = "nat list"

definition asc :: "string \<Rightarrow> str" where
  "asc s = map of_char s"

text \<open>\<open>k in s\<close> on strings: \<open>k\<close> occurs in \<open>s\<close> as a contiguous substring.\<close>

fun str_in :: "str \<Rightarrow> str \<Rightarrow> bool" where
  "str_in k [] = (k = [])"
| "str_in k (c # cs) = (prefix k (c # cs) \<or> str_in k cs)"

text \<open>\<open>any(keyword in request for keyword in keywords)\<close>\<close>

definition any_keyword :: "str list \<Rightarrow> str \<Rightarrow> bool" where
  "any_keyword keywords request = list_ex (\<lambda>keyword. str_in keyword request) keywords"

text \<open>
  The code points that \<open>str.strip()\<close> removes: those for which \<open>str.isspace\<close> holds.
\<close>

definition whitespace :: "nat list" where
  "whitespace =
     [0x09, 0x0A, 0x0B, 0x0C, 0x0D, 0x1C, 0x1D, 0x1E, 0x1F, 0x20, 0x85, 0xA0, 0x1680,
      0x2000, 0x2001, 0x2002, 0x2003, 0x2004, 0x2005, 0x2006, 0x2007, 0x2008, 0x2009, 0x200A,
      0x2028, 0x2029, 0x202F, 0x205F, 0x3000]"

definition is_space :: "nat \<Rightarrow> bool" where
  "is_space c = (c \<in> set whitespace)"

definition strip :: "str \<Rightarrow> str" where
  "strip s = rev (dropWhile is_space (rev (dropWhile is_space s)))"

text \<open>
  \<open>s.split(sep)\<close> for a non-empty separator: the pieces between the non-overlapping
  occurrences of \<open>sep\<close>, found from left to right. \<open>split_from sep acc k s\<close> scans \<open>s\<close>
  with the current piece \<open>acc\<close> (reversed) and \<open>k\<close> code points of a matched separator
  still to skip. Every call site passes a non-empty literal separator.
\<close>

fun split_from :: "str \<Rightarrow> str \<Rightarrow> nat \<Rightarrow> str \<Rightarrow> str list" where
  "split_from sep acc k [] = [rev acc]"
| "split_from sep acc (Suc k) (c # cs) = split_from sep acc k cs"
| "split_from sep acc 0 (c # cs) =
     (if prefix sep (c # cs) then rev acc # split_from sep [] (length sep - 1) cs
      else split_from sep (c # acc) 0 cs)"

definition split :: "str \<Rightarrow> str \<Rightarrow> str list" where
  "split s sep = split_from sep [] 0 s"

text \<open>\<open>sep.join(xs)\<close>\<close>

fun join :: "str \<Rightarrow> str list \<Rightarrow> str" where
  "join sep [] = []"
| "join sep [x] = x"
| "join sep (x # y # ys) = x @ sep @ join sep (y # ys)"

text \<open>\<open>str(n)\<close> for a non-negative integer: its decimal digits.\<close>

fun str_nat :: "nat \<Rightarrow> str" where
  "str_nat n = (if n < 10 then [0x30 + n] else str_nat (n div 10) @ [0x30 + n mod 10])"

declare str_nat.simps [simp del]


section \<open>Values and exceptions\<close>

text \<open>
  The values \<open>json.loads\<close> produces: \<open>None\<close>, booleans, integers, floats, strings, lists
  and dictionaries with string keys (the items in insertion order, the keys distinct).
  No arithmetic is done on numbers; a float is represented by its \<open>repr\<close>, which
  determines it (\<open>0.6\<close>, \<open>nan\<close>, \<open>inf\<close>).
\<close>

datatype json =
    JNull
  | JBool bool
  | JInt int
  | JFloat str
  | JStr str
  | JList "json list"
  | JDict "(str \<times> json) list"

text \<open>Truthiness of a value, as \<open>if v:\<close> tests it.\<close>

fun truthy :: "json \<Rightarrow> bool" where
  "truthy JNull = False"
| "truthy (JBool b) = b"
| "truthy (JInt n) = (n \<noteq> 0)"
| "truthy (JFloat r) = (r \<noteq> asc ''0.0'' \<and> r \<noteq> asc ''-0.0'')"
| "truthy (JStr s) = (s \<noteq> [])"
| "truthy (JList xs) = (xs \<noteq> [])"
| "truthy (JDict kvs) = (kvs \<noteq> [])"

text \<open>
  Exceptions are values. The interpreter's own exceptions record the operation and the
  value it was applied to; \<open>LibraryError\<close> stands for whatever is raised outside the code
  of the repository (the JSON decoder, the text splitter, the vector store, a model
  backend, the console that \<open>print\<close> writes to), with a text that identifies it.
\<close>

datatype operation = Subscript | Iterate | Len

datatype exn =
    KeyError str
  | TypeError operation json
  | AttributeError json str
  | IndexError
  | LibraryError str

text \<open>\<open>d.get(key, default)\<close>: only a dictionary has \<open>get\<close>.\<close>

fun dict_get :: "json \<Rightarrow> str \<Rightarrow> json \<Rightarrow> exn + json" where
  "dict_get (JDict kvs) key dflt = Inr (case map_of kvs key of None \<Rightarrow> dflt | Some v \<Rightarrow> v)"
| "dict_get v key dflt = Inl (AttributeError v (asc ''get''))"


text \<open>
  \<open>for x in v\<close>: the elements of a list, the characters of a string, the keys of a
  dictionary; anything else is not iterable.
\<close>

fun iterate :: "json \<Rightarrow> exn + json list" where
  "iterate (JList xs) = Inr xs"
| "iterate (JStr s) = Inr (map (\<lambda>c. JStr [c]) s)"
| "iterate (JDict kvs) = Inr (map (\<lambda>(k, v). JStr k) kvs)"
| "iterate v = Inl (TypeError Iterate v)"

text \<open>
  What the code uses of the interpreter and does not define: \<open>str.lower\<close>, the text
  \<open>str(e)\<close> of an exception, \<open>repr\<close> of a value, and \<open>print\<close>, which writes a line to the
  console and raises if the console refuses it (\<open>print_line\<close> gives the exception, if
  any).
\<close>

record runtime =
  str_lower :: "str \<Rightarrow> str"
  str_exn :: "exn \<Rightarrow> str"
  repr :: "json \<Rightarrow> str"
  print_line :: "str \<Rightarrow> exn option"

definition py_print :: "runtime \<Rightarrow> str \<Rightarrow> exn + unit" where
  "py_print rt line = (case print_line rt line of None \<Rightarrow> Inr () | Some e \<Rightarrow> Inl e)"

text \<open>
  \<open>str(v)\<close>, as an f-string formats a value: a string is itself, every other value
  prints as its \<open>repr\<close>.
\<close>

fun py_str :: "runtime \<Rightarrow> json \<Rightarrow> str" where
  "py_str rt (JStr s) = s"
| "py_str rt v = repr rt v"

text \<open>Sequencing of computations that may raise: the first exception wins.\<close>

definition and_then :: "exn + 'a \<Rightarrow> ('a \<Rightarrow> exn + 'b) \<Rightarrow> exn + 'b" where
  "and_then m f = (case m of Inl e \<Rightarrow> Inl e | Inr x \<Rightarrow> f x)"


text \<open>\<open>xs[i]\<close> for a non-negative index.\<close>

definition item :: "'a list \<Rightarrow> nat \<Rightarrow> exn + 'a" where
  "item xs i = (if i < length xs then Inr (xs ! i) else Inl IndexError)"


section \<open>Tool registry (core/tools.py)\<close>

record tool =
  name :: str
  description :: str
  parameters :: "str list"
  category :: str
  requires_pdf :: bool

text \<open>
  \<open>ToolRegistry.tools\<close> is a dictionary from tool names to tools; \<open>register_tool\<close>
  stores under the tool's name. The field \<open>function\<close> of a tool is not used by the code
  modelled here and is left out.
\<close>

type_synonym tool_registry = "(str \<times> tool) list"

definition register_tool :: "tool_registry \<Rightarrow> tool \<Rightarrow> tool_registry" where
  "register_tool tools t =
     (if name t \<in> fst ` set tools then map (\<lambda>(k, v). if k = name t then (k, t) else (k, v)) tools
      else tools @ [(name t, t)])"

definition get_tool :: "tool_registry \<Rightarrow> str \<Rightarrow> tool option" where
  "get_tool tools n = map_of tools n"

definition concept_explainer_tool :: tool where
  "concept_explainer_tool = \<lparr>
     name = asc ''concept_explainer'',
     description =
       asc ''Explains academic concepts, topics, or questions in simple, easy-to-understand terms. Best for: '' @ [0x27] @ asc ''Explain X'' @ [0x27] @ asc '', '' @ [0x27] @ asc ''What is Y'' @ [0x27] @ asc '', '' @ [0x27] @ asc ''Help me understand Z'' @ [0x27] @ asc ''. Uses PDF content if available.'',
     parameters = [asc ''concept'', asc ''previous_context'', asc ''rag_system'', asc ''pdf_content''],
     category = asc ''learning'',
     requires_pdf = False \<rparr>"

definition content_summarizer_tool :: tool where
  "content_summarizer_tool = \<lparr>
     name = asc ''content_summarizer'',
     description =
       asc ''Summarizes long text, notes, or PDF documents into concise key points. Best for: '' @ [0x27] @ asc ''Summarize this'' @ [0x27] @ asc '', '' @ [0x27] @ asc ''Give me the main points'' @ [0x27] @ asc '', '' @ [0x27] @ asc ''TL;DR of chapter X'' @ [0x27] @ asc ''. Requires content to summarize.'',
     parameters = [asc ''text'', asc ''previous_context'', asc ''user_focus'', asc ''extra_instruction'', asc ''rag_system''],
     category = asc ''comprehension'',
     requires_pdf = True \<rparr>"

definition quiz_generator_tool :: tool where
  "quiz_generator_tool = \<lparr>
     name = asc ''quiz_generator'',
     description =
       asc ''Creates practice quizzes with multiple choice, true/false, fill-in-the-blank, and short answer questions. Best for: '' @ [0x27] @ asc ''Make a quiz on X'' @ [0x27] @ asc '', '' @ [0x27] @ asc ''Test me on Y'' @ [0x27] @ asc '', '' @ [0x27] @ asc ''Practice questions for Z'' @ [0x27] @ asc ''. Includes answer key.'',
     parameters = [asc ''text'', asc ''previous_context'', asc ''rag_system''],
     category = asc ''assessment'',
     requires_pdf = False \<rparr>"

definition question_solver_tool :: tool where
  "question_solver_tool = \<lparr>
     name = asc ''question_solver'',
     description =
       asc ''Solves exam-style questions with detailed answers. Adapts answer length based on marks/word limits. Best for: '' @ [0x27] @ asc ''Solve this question'' @ [0x27] @ asc '', '' @ [0x27] @ asc ''Answer: Q1. ...'' @ [0x27] @ asc '', '' @ [0x27] @ asc ''Help with this problem'' @ [0x27] @ asc ''. Uses PDF as reference if available.'',
     parameters = [asc ''user_questions'', asc ''previous_context'', asc ''word_limit'', asc ''rag_system''],
     category = asc ''problem_solving'',
     requires_pdf = False \<rparr>"

definition answer_evaluator_tool :: tool where
  "answer_evaluator_tool = \<lparr>
     name = asc ''answer_evaluator'',
     description =
       asc ''Evaluates and grades user'' @ [0x27] @ asc ''s answers to questions. Provides detailed feedback, marks allocation, and improvement suggestions. Best for: '' @ [0x27] @ asc ''Check my answer'' @ [0x27] @ asc '', '' @ [0x27] @ asc ''Evaluate this'' @ [0x27] @ asc '', '' @ [0x27] @ asc ''How did I do?'' @ [0x27],
     parameters = [asc ''questions'', asc ''user_answers'', asc ''previous_context'', asc ''rag_system''],
     category = asc ''assessment'',
     requires_pdf = False \<rparr>"

text \<open>\<open>_register_default_tools\<close>, run by the constructor on an empty registry.\<close>

definition default_tools :: tool_registry where
  "default_tools =
     foldl register_tool []
       [concept_explainer_tool,
        content_summarizer_tool,
        quiz_generator_tool,
        question_solver_tool,
        answer_evaluator_tool]"

definition explain_keywords :: "str list" where
  "explain_keywords =
     [asc ''explain'', asc ''what is'', asc ''how does'', asc ''help me understand'', asc ''clarify'']"

definition summarize_keywords :: "str list" where
  "summarize_keywords =
     [asc ''summarize'', asc ''summary'', asc ''tldr'', asc ''main points'', asc ''key points'', asc ''condense'']"

definition quiz_keywords :: "str list" where
  "quiz_keywords =
     [asc ''quiz'', asc ''test'', asc ''practice'', asc ''questions'', asc ''mcq'', asc ''exam prep'']"

definition solve_keywords :: "str list" where
  "solve_keywords =
     [asc ''solve'', asc ''answer'', asc ''solution'', asc ''work out'', asc ''calculate'']"

definition evaluate_keywords :: "str list" where
  "evaluate_keywords =
     [asc ''check'', asc ''evaluate'', asc ''grade'', asc ''feedback'', asc ''review my answer'']"

text \<open>The five keyword tests of \<open>suggest_tools\<close>, in the order the source makes them.\<close>

definition keyword_suggestions :: "str \<Rightarrow> str list" where
  "keyword_suggestions request_lower =
     (if any_keyword explain_keywords request_lower then [asc ''concept_explainer''] else []) @
     (if any_keyword summarize_keywords request_lower then [asc ''content_summarizer''] else []) @
     (if any_keyword quiz_keywords request_lower then [asc ''quiz_generator''] else []) @
     (if any_keyword solve_keywords request_lower then [asc ''question_solver''] else []) @
     (if any_keyword evaluate_keywords request_lower then [asc ''answer_evaluator''] else [])"

text \<open>
  The filter \<open>[s for s in suggestions if not self.tools[s].requires_pdf or s ==
  "concept_explainer"]\<close>; \<open>self.tools[s]\<close> raises \<open>KeyError\<close> for an unregistered name.
\<close>

fun filter_no_pdf :: "tool_registry \<Rightarrow> str list \<Rightarrow> exn + str list" where
  "filter_no_pdf tools [] = Inr []"
| "filter_no_pdf tools (s # ss) =
     (case map_of tools s of
        None \<Rightarrow> Inl (KeyError s)
      | Some t \<Rightarrow>
          (case filter_no_pdf tools ss of
             Inl e \<Rightarrow> Inl e
           | Inr rest \<Rightarrow>
               Inr (if \<not> requires_pdf t \<or> s = asc ''concept_explainer'' then s # rest else rest)))"

definition suggest_tools :: "runtime \<Rightarrow> tool_registry \<Rightarrow> str \<Rightarrow> bool \<Rightarrow> exn + str list" where
  "suggest_tools rt tools user_request has_pdf =
     (let request_lower = str_lower rt user_request;
          suggestions = keyword_suggestions request_lower;
          suggestions = (if suggestions = [] then [asc ''concept_explainer''] else suggestions)
      in if \<not> has_pdf then filter_no_pdf tools suggestions else Inr suggestions)"




section \<open>Document retriever (core/rag_system.py)\<close>

text \<open>
  The embedding model, the text splitter and the vector store are third-party libraries.
  They enter the model as parameters:
  \<^item> \<open>load_error\<close> is the exception, if any, that loading the embedding model raises;
  \<^item> \<open>split_text chunk_size chunk_overlap text\<close> is
    \<open>RecursiveCharacterTextSplitter(...).split_text(text)\<close>;
  \<^item> \<open>from_texts_error chunks\<close> is the exception, if any, that embedding and storing the
    chunks in \<open>Chroma.from_texts\<close> raises;
  \<^item> \<open>similarity_search docs query k\<close> is the page contents of the documents that
    \<open>vectorstore.similarity_search(query, k=k)\<close> returns on a collection that holds the
    texts \<open>docs\<close>.

  \<open>Chroma.from_texts\<close> is called without a collection name and without a client. It then
  adds the chunks to the collection of the default name in the in-memory Chroma instance
  of the process, which every such call shares, and returns a store on that collection.
  The collection is state of the process, not of the \<open>RAGSystem\<close> object: the model
  threads its contents, the texts added so far, beside the object.
\<close>

type_synonym chroma = "str list"

record rag_lib =
  load_error :: "exn option"
  split_text :: "int \<Rightarrow> int \<Rightarrow> str \<Rightarrow> exn + str list"
  from_texts_error :: "str list \<Rightarrow> exn option"
  similarity_search :: "chroma \<Rightarrow> str \<Rightarrow> int \<Rightarrow> exn + str list"

text \<open>A store returned by \<open>Chroma.from_texts\<close>: a handle on the default collection.\<close>

datatype vectorstore = DefaultCollection

text \<open>
  The fields of a \<open>RAGSystem\<close>; \<open>embeddings\<close> records whether the embedding model is set
  (\<open>self.embeddings\<close> is not \<open>None\<close>).
\<close>

record rag =
  vectorstore :: "vectorstore option"
  embeddings :: bool
  chunk_count :: nat

text \<open>\<open>_initialize_embeddings\<close> and the constructor.\<close>

definition initialize_embeddings :: "runtime \<Rightarrow> rag_lib \<Rightarrow> rag \<Rightarrow> exn + rag" where
  \<open>initialize_embeddings rt lib self =
     (case (case load_error lib of
              Some e \<Rightarrow> (self, Inl e)
            | None \<Rightarrow>
                (let self = self\<lparr>embeddings := True\<rparr>
                 in (self, py_print rt ([0x2705] @ asc '' HuggingFace embeddings initialized successfully'')))) of
        (self, Inr u) \<Rightarrow> Inr self
      | (self, Inl e) \<Rightarrow>
          and_then (py_print rt (asc ''Warning: Could not initialize embeddings: '' @ str_exn rt e))
            (\<lambda>u. Inr (self\<lparr>embeddings := False\<rparr>)))\<close>

definition rag_new :: "runtime \<Rightarrow> rag_lib \<Rightarrow> exn + rag" where
  "rag_new rt lib =
     initialize_embeddings rt lib \<lparr> vectorstore = None, embeddings = False, chunk_count = 0 \<rparr>"

definition too_short_message :: str where
  \<open>too_short_message = [0x274C] @ asc '' PDF text too short to process (minimum 50 characters required)''\<close>

definition no_embeddings_message :: str where
  \<open>no_embeddings_message = [0x274C] @ asc '' Embedding model not initialized. Check GEMINI_API_KEY.''\<close>

definition no_chunks_message :: str where
  \<open>no_chunks_message = [0x274C] @ asc '' No chunks created from PDF text''\<close>

text \<open>
  The body of the \<open>try\<close> in \<open>process_pdf\<close>. It returns the collection and the object as
  it leaves them, and either the exception that ends it or the pair it returns.
\<close>

definition process_pdf_try ::
  "runtime \<Rightarrow> rag_lib \<Rightarrow> chroma \<Rightarrow> rag \<Rightarrow> str \<Rightarrow> int \<Rightarrow> int \<Rightarrow>
   chroma \<times> rag \<times> (exn + bool \<times> str)" where
  \<open>process_pdf_try rt lib db self pdf_text chunk_size chunk_overlap =
     (case py_print rt ([0x1F4CA] @ asc '' Processing PDF text ('' @ str_nat (length pdf_text) @ asc '' chars)...'') of
        Inl e \<Rightarrow> (db, self, Inl e)
      | Inr u \<Rightarrow>
     (case split_text lib chunk_size chunk_overlap pdf_text of
        Inl e \<Rightarrow> (db, self, Inl e)
      | Inr chunks \<Rightarrow>
     (let self = self\<lparr>chunk_count := length chunks\<rparr> in
     (case py_print rt ([0x2702, 0xFE0F] @ asc '' Split into '' @ str_nat (chunk_count self) @ asc '' chunks'') of
        Inl e \<Rightarrow> (db, self, Inl e)
      | Inr u \<Rightarrow>
     (if chunk_count self = 0 then (db, self, Inr (False, no_chunks_message))
      else
     (case py_print rt ([0x1F9E0] @ asc '' Creating embeddings (this may take 10-30 seconds)...'') of
        Inl e \<Rightarrow> (db, self, Inl e)
      | Inr u \<Rightarrow>
     (case from_texts_error lib chunks of
        Some e \<Rightarrow> (db, self, Inl e)
      | None \<Rightarrow>
     (let db = db @ chunks;
          self = self\<lparr>vectorstore := Some DefaultCollection\<rparr> in
     (case py_print rt ([0x2705] @ asc '' RAG system ready with '' @ str_nat (chunk_count self) @ asc '' chunks!'') of
        Inl e \<Rightarrow> (db, self, Inl e)
      | Inr u \<Rightarrow>
          (db, self, Inr (True, [0x2705] @ asc '' RAG enabled: '' @ str_nat (chunk_count self) @ asc '' chunks created & indexed'')))))))))))\<close>

text \<open>
  \<open>process_pdf\<close> returns the pair \<open>(success, message)\<close> and updates the object and the
  collection; the model returns these as well.
\<close>

definition process_pdf ::
  "runtime \<Rightarrow> rag_lib \<Rightarrow> chroma \<Rightarrow> rag \<Rightarrow> str \<Rightarrow> int \<Rightarrow> int \<Rightarrow> chroma \<times> rag \<times> bool \<times> str" where
  \<open>process_pdf rt lib db self pdf_text chunk_size chunk_overlap =
     (if pdf_text = [] \<or> length (strip pdf_text) < 50 then (db, self, False, too_short_message)
      else if \<not> embeddings self then (db, self, False, no_embeddings_message)
      else
        (case process_pdf_try rt lib db self pdf_text chunk_size chunk_overlap of
           (db, self, Inr (ok, message)) \<Rightarrow> (db, self, ok, message)
         | (db, self, Inl e) \<Rightarrow> (db, self, False, [0x274C] @ asc '' Error processing PDF for RAG: '' @ str_exn rt e)))\<close>

text \<open>
  \<open>retrieve_context\<close>. A store exists only once chunks were added to the collection, so
  \<open>not self.vectorstore\<close> tests for \<open>None\<close>.
\<close>

definition retrieve_context :: "runtime \<Rightarrow> rag_lib \<Rightarrow> chroma \<Rightarrow> rag \<Rightarrow> str \<Rightarrow> int \<Rightarrow> exn + str" where
  \<open>retrieve_context rt lib db self query k =
     (case vectorstore self of
        None \<Rightarrow> Inr []
      | Some store \<Rightarrow>
          (case similarity_search lib db query k of
             Inr docs \<Rightarrow>
               Inr (if docs = [] then [] else join (asc ''

--- Retrieved Section ---

'') docs)
           | Inl e \<Rightarrow>
               and_then (py_print rt ([0x26A0, 0xFE0F] @ asc '' Retrieval error: '' @ str_exn rt e)) (\<lambda>u. Inr [])))\<close>

definition is_ready :: "rag \<Rightarrow> bool" where
  "is_ready self = (vectorstore self \<noteq> None)"

definition get_chunk_count :: "rag \<Rightarrow> nat" where
  "get_chunk_count self = chunk_count self"

definition reset :: "rag \<Rightarrow> rag" where
  "reset self = self\<lparr>vectorstore := None, chunk_count := 0\<rparr>"

text \<open>
  The calls a client can make on a \<open>RAGSystem\<close>, and a run of such calls on the
  collection and the object. \<open>process_pdf\<close> is called with its default chunk size and
  overlap, as \<open>handle_pdf_upload\<close> calls it.
\<close>

datatype rag_call =
    ProcessPdf str
  | RetrieveContext str int
  | Reset

fun rag_step :: "runtime \<Rightarrow> rag_lib \<Rightarrow> chroma \<times> rag \<Rightarrow> rag_call \<Rightarrow> chroma \<times> rag" where
  "rag_step rt lib (db, self) (ProcessPdf pdf_text) =
     (case process_pdf rt lib db self pdf_text 1500 150 of (db, self, ok, message) \<Rightarrow> (db, self))"
| "rag_step rt lib (db, self) (RetrieveContext query k) = (db, self)"
| "rag_step rt lib (db, self) Reset = (db, reset self)"

definition rag_run :: "runtime \<Rightarrow> rag_lib \<Rightarrow> chroma \<times> rag \<Rightarrow> rag_call list \<Rightarrow> chroma \<times> rag" where
  "rag_run rt lib state calls = foldl (rag_step rt lib) state calls"


section \<open>Language-model client (utils/groq_helper.py, utils/gemini_helper.py)\<close>

text \<open>
  The module state of a client after import. The hosted client and the local
  text-generation pipeline are external; each is a function from the prompt it is sent to
  what the call produces: an exception, or the message content (which the hosted API may
  leave \<open>None\<close>), respectively the generated text. \<open>utils/gemini_helper.py\<close> has no
  hosted client and uses the fields \<open>api_configured\<close>, \<open>config_error\<close> and \<open>generator\<close>
  only.
\<close>

record llm_config =
  api_configured :: bool
  config_error :: str
  use_groq :: bool
  groq_client :: "(str \<Rightarrow> exn + str option) option"
  generator :: "(str \<Rightarrow> exn + str) option"

definition formatted_prompt :: "str \<Rightarrow> str" where
  \<open>formatted_prompt prompt =
     asc ''<|system|>
You are Study Buddy, a helpful AI tutor.</s>
<|user|>
'' @ prompt @ asc ''</s>
<|assistant|>
''\<close>

text \<open>
  The body of the \<open>try\<close> around the hosted call: \<open>len(response)\<close> in the log line
  raises \<open>TypeError\<close> when the content is \<open>None\<close>.
\<close>

definition groq_try :: "runtime \<Rightarrow> (str \<Rightarrow> exn + str option) \<Rightarrow> str \<Rightarrow> exn + str" where
  \<open>groq_try rt client prompt =
     and_then (py_print rt ([0x26A1] @ asc '' Generating response with Groq API... (prompt length: '' @ str_nat (length prompt) @ asc '' chars)'')) (\<lambda>u.
     and_then (client prompt) (\<lambda>content.
       case content of
         None \<Rightarrow> Inl (TypeError Len JNull)
       | Some response \<Rightarrow>
           and_then (py_print rt ([0x2705] @ asc '' Groq API responded (length: '' @ str_nat (length response) @ asc '' chars)''))
             (\<lambda>u. Inr response)))\<close>

text \<open>The body of the \<open>try\<close> around the local pipeline.\<close>

definition local_try :: "runtime \<Rightarrow> (str \<Rightarrow> exn + str) \<Rightarrow> str \<Rightarrow> exn + str" where
  \<open>local_try rt gen prompt =
     and_then (py_print rt ([0x1F916] @ asc '' Generating response with local LLM... (prompt length: '' @ str_nat (length prompt) @ asc '' chars)'')) (\<lambda>u.
     and_then (gen (formatted_prompt prompt)) (\<lambda>full_text.
       let response = strip (last (split full_text (asc ''<|assistant|>'')))
       in and_then (py_print rt ([0x2705] @ asc '' Local LLM responded (length: '' @ str_nat (length response) @ asc '' chars)''))
            (\<lambda>u. Inr (if response \<noteq> [] then response else [0x26A0, 0xFE0F] @ asc '' No response generated.''))))\<close>

text \<open>The \<open>except\<close> handler around the local pipeline: it prints, then returns the text.\<close>

definition local_handler :: "runtime \<Rightarrow> exn \<Rightarrow> exn + str" where
  \<open>local_handler rt e =
     (let error_msg = str_exn rt e
      in and_then (py_print rt ([0x274C] @ asc '' Local LLM error: '' @ error_msg))
           (\<lambda>u. Inr ([0x274C] @ asc '' Error generating response: '' @ error_msg)))\<close>

text \<open>The \<open>except\<close> handler around the hosted call.\<close>

definition groq_handler :: "runtime \<Rightarrow> exn \<Rightarrow> exn + str" where
  \<open>groq_handler rt e =
     (let error_msg = str_exn rt e
      in and_then (py_print rt ([0x274C] @ asc '' Groq API error: '' @ error_msg))
           (\<lambda>u. Inr ([0x274C] @ asc '' Groq API error: '' @ error_msg @ asc ''

Please check your API key in .env file.'')))\<close>

definition groq_no_llm_message :: "llm_config \<Rightarrow> str" where
  \<open>groq_no_llm_message cfg =
     [0x274C] @ asc '' No LLM configured. 

'' @
     config_error cfg @
     asc ''

Please set up Groq API:
1. Get free API key from: https://console.groq.com
2. Add to .env file: GROQ_API_KEY=your_key_here
3. Restart the app

''\<close>

definition gemini_no_llm_message :: "llm_config \<Rightarrow> str" where
  \<open>gemini_no_llm_message cfg =
     [0x274C] @ asc '' Local LLM not loaded. 

'' @
     config_error cfg @
     asc ''

The app is trying to load TinyLlama-1.1B locally.
Please wait or restart the app.''\<close>

definition no_llm_available_message :: str where
  \<open>no_llm_available_message =
     [0x274C] @ asc '' No LLM available. Please configure Groq API or install transformers for local LLM.''\<close>

text \<open>\<open>generate_response\<close> of \<open>utils/groq_helper.py\<close>.\<close>

definition groq_generate_response :: "runtime \<Rightarrow> llm_config \<Rightarrow> str \<Rightarrow> exn + str" where
  "groq_generate_response rt cfg prompt =
     (if \<not> api_configured cfg then Inr (groq_no_llm_message cfg)
      else
        (case (if use_groq cfg then groq_client cfg else None) of
           Some client \<Rightarrow>
             (case groq_try rt client prompt of
                Inr response \<Rightarrow> Inr response
              | Inl e \<Rightarrow> groq_handler rt e)
         | None \<Rightarrow>
             (case generator cfg of
                Some gen \<Rightarrow>
                  (case local_try rt gen prompt of
                     Inr response \<Rightarrow> Inr response
                   | Inl e \<Rightarrow> local_handler rt e)
              | None \<Rightarrow> Inr no_llm_available_message)))"

text \<open>\<open>generate_response\<close> of \<open>utils/gemini_helper.py\<close>.\<close>

definition gemini_generate_response :: "runtime \<Rightarrow> llm_config \<Rightarrow> str \<Rightarrow> exn + str" where
  "gemini_generate_response rt cfg prompt =
     (case (if api_configured cfg then generator cfg else None) of
        None \<Rightarrow> Inr (gemini_no_llm_message cfg)
      | Some gen \<Rightarrow>
          (case local_try rt gen prompt of
             Inr response \<Rightarrow> Inr response
           | Inl e \<Rightarrow> local_handler rt e))"


section \<open>The environment of the agent\<close>

text \<open>
  What the planner and the agent call but do not define: the interpreter, the module
  state of the language-model client, \<open>json.loads\<close>, \<open>json.dumps(results, indent=2)\<close> on
  the list of step results, the retrieval libraries with the contents of the vector
  collection, and the five mode functions of \<open>core/explainer.py\<close>, \<open>core/summarizer.py\<close>
  and \<open>core/quizzer.py\<close>, each with the arguments \<open>_execute_tool\<close> passes.
\<close>

record step_result =
  res_step :: json
  res_action :: json
  res_tool :: json
  res_result :: str

record env =
  python :: runtime
  llm :: llm_config
  json_loads :: "str \<Rightarrow> exn + json"
  json_dumps :: "step_result list \<Rightarrow> str"
  rag_library :: rag_lib
  chroma_collection :: chroma
  explain_concept :: "str \<Rightarrow> str \<Rightarrow> rag option \<Rightarrow> str \<Rightarrow> exn + str"
  summarize_text :: "str \<Rightarrow> str \<Rightarrow> str \<Rightarrow> str \<Rightarrow> rag option \<Rightarrow> exn + str"
  generate_questions :: "str \<Rightarrow> str \<Rightarrow> rag option \<Rightarrow> exn + str"
  solve_questions :: "str \<Rightarrow> str \<Rightarrow> int \<Rightarrow> rag option \<Rightarrow> exn + str"
  evaluate_answers :: "str \<Rightarrow> str \<Rightarrow> str \<Rightarrow> rag option \<Rightarrow> exn + str"

text \<open>
  The extraction of the JSON text from a reply, shared by \<open>think\<close> and \<open>create_plan\<close>:
  the contents of the first fenced block, if there is one.
\<close>

definition extract_json :: "str \<Rightarrow> exn + str" where
  "extract_json reply =
     (if str_in (asc ''```json'') reply then
        and_then (item (split reply (asc ''```json'')) 1)
          (\<lambda>r. and_then (item (split r (asc ''```'')) 0) (\<lambda>r. Inr (strip r)))
      else if str_in (asc ''```'') reply then
        and_then (item (split reply (asc ''```'')) 1)
          (\<lambda>r. and_then (item (split r (asc ''```'')) 0) (\<lambda>r. Inr (strip r)))
      else Inr reply)"


section \<open>Planner (core/planner.py)\<close>

record plan_step =
  step_number :: json
  action :: json
  tool :: json
  reason :: json
  dependencies :: json
  estimated_time :: json

record execution_plan =
  user_intent :: json
  complexity :: json
  steps :: "plan_step list"
  proactive_suggestions :: json
  confidence :: json
  reasoning :: json

record planner =
  tool_registry :: tool_registry
  planning_history :: "execution_plan list"










section \<open>Agent (core/agent.py)\<close>

record agent =
  rag_system :: "rag option"
  pdf_content :: str
  conversation_history :: "json list"
  tools_used :: "json list"
  current_plan :: "json option"

definition agent_init :: "rag option \<Rightarrow> str \<Rightarrow> agent" where
  "agent_init rag_sys content =
     \<lparr> rag_system = rag_sys, pdf_content = content, conversation_history = [],
       tools_used = [], current_plan = None \<rparr>"

text \<open>\<open>self.rag_system and self.rag_system.is_ready()\<close>\<close>

definition rag_ready :: "rag option \<Rightarrow> bool" where
  "rag_ready r = (case r of None \<Rightarrow> False | Some rs \<Rightarrow> is_ready rs)"

definition thinking_prompt :: "agent \<Rightarrow> str \<Rightarrow> str \<Rightarrow> str" where
  \<open>thinking_prompt self user_request conversation_context =
     asc ''
You are the reasoning brain of Study Buddy AI Agent.

CONVERSATION CONTEXT:
'' @
     conversation_context @
     asc ''

USER REQUEST:
'' @
     user_request @
     asc ''

AVAILABLE RESOURCES:
- PDF Content: '' @
     (if pdf_content self \<noteq> [] \<or> rag_ready (rag_system self) then asc ''Available'' else asc ''Not available'') @
     asc ''
- RAG System: '' @
     (if rag_ready (rag_system self) then asc ''Active'' else asc ''Inactive'') @
     asc ''

AVAILABLE TOOLS:
1. concept_explainer - Explains academic concepts in simple terms
2. content_summarizer - Summarizes long text or PDF content
3. quiz_generator - Creates quizzes on topics
4. question_solver - Solves exam-style questions
5. answer_evaluator - Evaluates and grades user'' @ [0x27] @ asc ''s answers
6. pdf_retriever - Retrieves relevant content from uploaded PDFs

YOUR TASK:
Analyze the user'' @ [0x27] @ asc ''s request and create a plan. Think step by step:

1. What does the user actually want?
2. Is this a simple task (one tool) or complex (multiple tools)?
3. What information do I need from the PDF (if any)?
4. What'' @ [0x27] @ asc ''s the best sequence of tools to use?
5. Should I be proactive and suggest additional help?

RESPOND IN THIS JSON FORMAT:
{
    "user_intent": "Brief description of what user wants",
    "complexity": "simple" or "complex",
    "tools_needed": ["tool1", "tool2", ...],
    "execution_plan": [
        {"step": 1, "action": "description", "tool": "tool_name", "reason": "why this step"},
        ...
    ],
    "proactive_suggestions": ["suggestion1", "suggestion2", ...],
    "confidence": 0.0 to 1.0
}

Think carefully and respond ONLY with valid JSON.
''\<close>

definition think_fallback :: "runtime \<Rightarrow> str \<Rightarrow> exn \<Rightarrow> json" where
  "think_fallback rt user_request e =
     JDict [(asc ''user_intent'', JStr user_request),
            (asc ''complexity'', JStr (asc ''simple'')),
            (asc ''tools_needed'', JList [JStr (asc ''concept_explainer'')]),
            (asc ''execution_plan'',
               JList [JDict [(asc ''step'', JInt 1), (asc ''action'', JStr (asc ''Respond to user'')),
                             (asc ''tool'', JStr (asc ''concept_explainer'')),
                             (asc ''reason'', JStr (asc ''Direct response''))]]),
            (asc ''proactive_suggestions'', JList []),
            (asc ''confidence'', JFloat (asc ''0.5'')),
            (asc ''error'', JStr (str_exn rt e))]"

text \<open>The body of the \<open>try\<close> in \<open>think\<close>, up to \<open>json.loads\<close>.\<close>

definition think_try :: "env \<Rightarrow> agent \<Rightarrow> str \<Rightarrow> str \<Rightarrow> exn + json" where
  "think_try env self user_request conversation_context =
     and_then (gemini_generate_response (python env) (llm env)
                 (strip (thinking_prompt self user_request conversation_context)))
       (\<lambda>reply. and_then (extract_json reply) (json_loads env))"

definition think :: "env \<Rightarrow> agent \<Rightarrow> str \<Rightarrow> str \<Rightarrow> agent \<times> json" where
  "think env self user_request conversation_context =
     (case think_try env self user_request conversation_context of
        Inr plan \<Rightarrow> (self\<lparr>current_plan := Some plan\<rparr>, plan)
      | Inl e \<Rightarrow> (self, think_fallback (python env) user_request e))"

text \<open>
  The retrieval at the head of \<open>_execute_tool\<close>, which runs before the tool name is
  looked at.
\<close>

definition retrieve_pdf_context :: "env \<Rightarrow> agent \<Rightarrow> str \<Rightarrow> exn + str" where
  "retrieve_pdf_context env self v_input =
     (case (if rag_ready (rag_system self) then rag_system self else None) of
        Some rs \<Rightarrow>
          retrieve_context (python env) (rag_library env) (chroma_collection env) rs v_input 3
      | None \<Rightarrow> Inr (if pdf_content self \<noteq> [] then take 8000 (pdf_content self) else []))"

text \<open>
  \<open>_execute_tool\<close>. The modules it imports are loaded when the application starts, so
  the \<open>import\<close> statements at its head only bind names.
\<close>

definition execute_tool :: "env \<Rightarrow> agent \<Rightarrow> json \<Rightarrow> str \<Rightarrow> str \<Rightarrow> exn + str" where
  \<open>execute_tool env self tool_name v_input context =
     and_then (retrieve_pdf_context env self v_input) (\<lambda>pdf_context.
       if tool_name = JStr (asc ''concept_explainer'') then
         explain_concept env v_input context (rag_system self) (pdf_content self)
       else if tool_name = JStr (asc ''content_summarizer'') then
         summarize_text env (if pdf_context \<noteq> [] then pdf_context else v_input)
           context v_input [] (rag_system self)
       else if tool_name = JStr (asc ''quiz_generator'') then
         generate_questions env v_input context (rag_system self)
       else if tool_name = JStr (asc ''question_solver'') then
         solve_questions env v_input context 100 (rag_system self)
       else if tool_name = JStr (asc ''answer_evaluator'') then
         evaluate_answers env v_input [] context (rag_system self)
       else if tool_name = JStr (asc ''pdf_retriever'') then
         (case (if rag_ready (rag_system self) then rag_system self else None) of
            Some rs \<Rightarrow>
              retrieve_context (python env) (rag_library env) (chroma_collection env) rs v_input 5
          | None \<Rightarrow> Inr pdf_context)
       else Inr (asc ''Tool '' @ py_str (python env) tool_name @ asc '' not found. Using default response.''))\<close>

definition synthesis_prompt :: "env \<Rightarrow> str \<Rightarrow> step_result list \<Rightarrow> str" where
  \<open>synthesis_prompt env user_request results =
     asc ''
You are Study Buddy AI Agent synthesizing multiple tool results into a coherent response.

USER REQUEST:
'' @
     user_request @
     asc ''

EXECUTION RESULTS:
'' @
     json_dumps env results @
     asc ''

YOUR TASK:
Create a natural, flowing response that:
1. Directly addresses the user'' @ [0x27] @ asc ''s request
2. Integrates all tool results smoothly
3. Uses clear section headings if multiple topics
4. Maintains an encouraging, helpful tone
5. Includes the proactive suggestions at the end if relevant

Respond naturally, not as JSON. Use Markdown formatting.
''\<close>

definition suggestions_header :: str where
  \<open>suggestions_header = asc ''

---

'' @ [0x1F4A1] @ asc '' **I can also help you with:**
''\<close>

text \<open>
  \<open>_synthesize_response\<close>. Besides the reply, the model returns the prompts the function
  sent to the language-model client.
\<close>

definition synthesize_response ::
  "env \<Rightarrow> str \<Rightarrow> step_result list \<Rightarrow> json \<Rightarrow> exn + str \<times> str list" where
  \<open>synthesize_response env user_request results the_plan =
     and_then
       (if length results = 1 then and_then (item results 0) (\<lambda>r. Inr (res_result r, []))
        else
          (let prompt = strip (synthesis_prompt env user_request results)
           in and_then (gemini_generate_response (python env) (llm env) prompt)
                (\<lambda>r. Inr (r, [prompt]))))
       (\<lambda>(reply, prompts).
          and_then (dict_get the_plan (asc ''proactive_suggestions'') (JList [])) (\<lambda>v_suggestions.
            if truthy v_suggestions then
              and_then (iterate v_suggestions) (\<lambda>items.
                Inr (reply @ suggestions_header @
                       concat (map (\<lambda>suggestion. asc ''- '' @ py_str (python env) suggestion @ asc ''
'') items),
                     prompts))
            else Inr (reply, prompts)))\<close>

text \<open>
  The loop of \<open>execute\<close> over the steps of the plan. An exception leaves the loop with
  the tools recorded so far.
\<close>

fun run_steps ::
  "env \<Rightarrow> agent \<Rightarrow> str \<Rightarrow> str \<Rightarrow> json list \<Rightarrow> step_result list \<Rightarrow>
   agent \<times> (exn + step_result list)" where
  "run_steps env self user_request context [] results = (self, Inr results)"
| "run_steps env self user_request context (step # rest) results =
     (case and_then (dict_get step (asc ''tool'') JNull) (\<lambda>tool_name.
           and_then (dict_get step (asc ''action'') JNull) (\<lambda>v_action.
           and_then (execute_tool env self tool_name user_request context) (\<lambda>result.
           and_then (dict_get step (asc ''step'') JNull) (\<lambda>v_step.
             Inr \<lparr> res_step = v_step, res_action = v_action, res_tool = tool_name,
                   res_result = result \<rparr>)))) of
        Inl e \<Rightarrow> (self, Inl e)
      | Inr r \<Rightarrow>
          run_steps env (self\<lparr>tools_used := tools_used self @ [res_tool r]\<rparr>)
            user_request context rest (results @ [r]))"

record execute_result =
  response :: str
  plan :: json
  result_tools_used :: "json list"
  thinking_process :: json
  suggestions :: json

definition execute ::
  "env \<Rightarrow> agent \<Rightarrow> str \<Rightarrow> str \<Rightarrow> agent \<times> (exn + execute_result)" where
  "execute env self user_request conversation_context =
     (let (self, the_plan) = think env self user_request conversation_context
      in case and_then (dict_get the_plan (asc ''execution_plan'') (JList [])) iterate of
           Inl e \<Rightarrow> (self, Inl e)
         | Inr the_steps \<Rightarrow>
             (case run_steps env self user_request conversation_context the_steps [] of
                (self, Inl e) \<Rightarrow> (self, Inl e)
              | (self, Inr results) \<Rightarrow>
                  (self,
                   and_then (synthesize_response env user_request results the_plan)
                     (\<lambda>(final_response, prompts).
                   and_then (dict_get the_plan (asc ''execution_plan'') (JList [])) (\<lambda>v_process.
                   and_then (dict_get the_plan (asc ''proactive_suggestions'') (JList [])) (\<lambda>v_suggestions.
                     Inr \<lparr> response = final_response, plan = the_plan,
                           result_tools_used = tools_used self,
                           thinking_process = v_process,
                           suggestions = v_suggestions \<rparr>))))))"


section \<open>Conversation memory (core/memory.py)\<close>

record conversation_turn =
  timestamp :: str
  user_input :: str
  agent_response :: str
  turn_tools_used :: "str list"
  plan_complexity :: str
  metadata :: "(str \<times> json) list"

record short_term_memory =
  max_turns :: int
  conversation :: "conversation_turn list"
  current_context :: str

definition short_term_memory_init :: "int \<Rightarrow> short_term_memory" where
  "short_term_memory_init n = \<lparr> max_turns = n, conversation = [], current_context = [] \<rparr>"

text \<open>\<open>xs[-n:]\<close> for a positive \<open>n\<close>: the last \<open>n\<close> elements.\<close>

definition last_n :: "nat \<Rightarrow> 'a list \<Rightarrow> 'a list" where
  "last_n n xs = drop (length xs - n) xs"

text \<open>\<open>_update_context\<close>\<close>

definition update_context :: "short_term_memory \<Rightarrow> short_term_memory" where
  "update_context self =
     (let recent_turns = last_n 5 (conversation self);
          context_parts =
            concat (map (\<lambda>turn. [asc ''User: '' @ user_input turn,
                                  asc ''Assistant: '' @ take 200 (agent_response turn) @ asc ''...''])
                        recent_turns)
      in self\<lparr>current_context := join (asc ''
'') context_parts\<rparr>)"

text \<open>
  \<open>add_turn\<close>. The time stamp \<open>datetime.now().isoformat()\<close> is read from the clock and
  is a parameter, \<open>now\<close>. A missing \<open>metadata\<close> is \<open>None\<close>.
\<close>

definition add_turn ::
  "short_term_memory \<Rightarrow> str \<Rightarrow> str \<Rightarrow> str \<Rightarrow> str list \<Rightarrow> str \<Rightarrow>
   (str \<times> json) list option \<Rightarrow> short_term_memory" where
  "add_turn self now v_user_input v_agent_response v_tools_used v_plan_complexity v_metadata =
     (let turn = \<lparr> timestamp = now, user_input = v_user_input,
                   agent_response = take 500 v_agent_response,
                   turn_tools_used = v_tools_used, plan_complexity = v_plan_complexity,
                   metadata = (case v_metadata of None \<Rightarrow> [] | Some m \<Rightarrow> m) \<rparr>;
          self = self\<lparr>conversation := conversation self @ [turn]\<rparr>;
          self = (if int (length (conversation self)) > max_turns self
                  then self\<lparr>conversation := tl (conversation self)\<rparr> else self)
      in update_context self)"

definition clear :: "short_term_memory \<Rightarrow> short_term_memory" where
  "clear self = self\<lparr>conversation := [], current_context := []\<rparr>"

text \<open>The arguments of one \<open>add_turn\<close> call, and a run of such calls.\<close>

record turn_args =
  arg_now :: str
  arg_user_input :: str
  arg_agent_response :: str
  arg_tools_used :: "str list"
  arg_plan_complexity :: str
  arg_metadata :: "(str \<times> json) list option"

definition add_turn_args :: "short_term_memory \<Rightarrow> turn_args \<Rightarrow> short_term_memory" where
  "add_turn_args self a =
     add_turn self (arg_now a) (arg_user_input a) (arg_agent_response a) (arg_tools_used a)
       (arg_plan_complexity a) (arg_metadata a)"

definition add_turns :: "short_term_memory \<Rightarrow> turn_args list \<Rightarrow> short_term_memory" where
  "add_turns self calls = foldl add_turn_args self calls"

text \<open>The turn that \<open>add_turn\<close> stores for the arguments of a call.\<close>

definition turn_of :: "turn_args \<Rightarrow> conversation_turn" where
  "turn_of a =
     \<lparr> timestamp = arg_now a, user_input = arg_user_input a,
       agent_response = take 500 (arg_agent_response a),
       turn_tools_used = arg_tools_used a, plan_complexity = arg_plan_complexity a,
       metadata = (case arg_metadata a of None \<Rightarrow> [] | Some m \<Rightarrow> m) \<rparr>"


section \<open>Notions of the specification\<close>

text \<open>
  The tools in the order the registry declares them, the keyword set of each, and the
  tools whose keyword set matches a (lower-cased) request, in declaration order.
\<close>

definition tool_order :: "str list" where
  "tool_order =
     [asc ''concept_explainer'', asc ''content_summarizer'', asc ''quiz_generator'',
      asc ''question_solver'', asc ''answer_evaluator'']"

definition keywords_of :: "str \<Rightarrow> str list" where
  "keywords_of t =
     (if t = asc ''concept_explainer'' then explain_keywords
      else if t = asc ''content_summarizer'' then summarize_keywords
      else if t = asc ''quiz_generator'' then quiz_keywords
      else if t = asc ''question_solver'' then solve_keywords
      else if t = asc ''answer_evaluator'' then evaluate_keywords
      else [])"

definition matched_tools :: "str \<Rightarrow> str list" where
  "matched_tools request_lower =
     filter (\<lambda>t. any_keyword (keywords_of t) request_lower) tool_order"

text \<open>The candidates before the document filter: the matched tools, or the explain tool.\<close>

definition candidates :: "str \<Rightarrow> str list" where
  "candidates request_lower =
     (if matched_tools request_lower = [] then [asc ''concept_explainer'']
      else matched_tools request_lower)"

text \<open>A tool that the registry marks as requiring a document.\<close>

definition needs_document :: "tool_registry \<Rightarrow> str \<Rightarrow> bool" where
  "needs_document tools t = (case get_tool tools t of None \<Rightarrow> False | Some x \<Rightarrow> requires_pdf x)"

text \<open>A registry that holds the five tools.\<close>

definition registered :: "tool_registry \<Rightarrow> bool" where
  "registered tools = list_all (\<lambda>t. get_tool tools t \<noteq> None) tool_order"

text \<open>The error strings that \<open>generate_response\<close> builds from an exception.\<close>

definition groq_error_text :: "runtime \<Rightarrow> exn \<Rightarrow> str" where
  \<open>groq_error_text rt e =
     [0x274C] @ asc '' Groq API error: '' @ str_exn rt e @ asc ''

Please check your API key in .env file.''\<close>

definition local_error_text :: "runtime \<Rightarrow> exn \<Rightarrow> str" where
  \<open>local_error_text rt e =
     [0x274C] @ asc '' Error generating response: '' @ str_exn rt e\<close>

text \<open>The reply that \<open>generate_response\<close> extracts from the text the local pipeline returns.\<close>

definition local_reply :: "str \<Rightarrow> str" where
  \<open>local_reply full_text =
     (let r = strip (last (split full_text (asc ''<|assistant|>'')))
      in if r \<noteq> [] then r else [0x26A0, 0xFE0F] @ asc '' No response generated.'')\<close>

text \<open>The six tool names that \<open>_execute_tool\<close> dispatches on.\<close>

definition known_tool_names :: "str list" where
  "known_tool_names =
     [asc ''concept_explainer'', asc ''content_summarizer'', asc ''quiz_generator'',
      asc ''question_solver'', asc ''answer_evaluator'', asc ''pdf_retriever'']"

text \<open>\<open>d.get(key)\<close> on the items of a dictionary.\<close>

definition get_or_none :: "(str \<times> json) list \<Rightarrow> str \<Rightarrow> json" where
  "get_or_none kvs key = (case map_of kvs key of None \<Rightarrow> JNull | Some v \<Rightarrow> v)"

text \<open>The text that \<open>_execute_tool\<close> returns for a tool name it does not know.\<close>

definition not_found_text :: "runtime \<Rightarrow> json \<Rightarrow> str" where
  "not_found_text rt tool_name =
     asc ''Tool '' @ py_str rt tool_name @ asc '' not found. Using default response.''"

text \<open>
  The suggestions of a plan, given the value of its \<open>proactive_suggestions\<close>: none if the
  value is falsy, otherwise its items, if it can be iterated over. For a list these are
  its elements.
\<close>

definition suggestion_items :: "json \<Rightarrow> exn + json list" where
  "suggestion_items v = (if truthy v then iterate v else Inr [])"

text \<open>The trailing bulleted list of suggestions: empty when there is no suggestion.\<close>

definition suggestions_block :: "runtime \<Rightarrow> json list \<Rightarrow> str" where
  "suggestions_block rt ss =
     (if ss = [] then []
      else suggestions_header @
           concat (map (\<lambda>suggestion. asc ''- '' @ py_str rt suggestion @ [0x0A]) ss))"

text \<open>The tool names of the steps of a plan, in order.\<close>

definition step_tool :: "json \<Rightarrow> json" where
  "step_tool s = (case dict_get s (asc ''tool'') JNull of Inr t \<Rightarrow> t | Inl e \<Rightarrow> JNull)"

definition plan_tools :: "json \<Rightarrow> json list" where
  "plan_tools p =
     (case and_then (dict_get p (asc ''execution_plan'') (JList [])) iterate of
        Inr the_steps \<Rightarrow> map step_tool the_steps
      | Inl e \<Rightarrow> [])"

text \<open>
  The calls that \<open>use_agentic_mode\<close> (\<open>components/chat_ui.py\<close>) makes on the agent of the
  session: it sets \<open>pdf_content\<close> and \<open>rag_system\<close> from the session, then calls
  \<open>execute\<close> with the request and the context. Each call has its own environment (the
  language model need not answer the same prompt twice in the same way).
\<close>

record agent_call =
  call_env :: env
  call_rag :: "rag option"
  call_pdf :: str
  call_request :: str
  call_context :: str

definition agentic_call :: "agent \<Rightarrow> agent_call \<Rightarrow> agent \<times> (exn + execute_result)" where
  "agentic_call self c =
     execute (call_env c) (self\<lparr>pdf_content := call_pdf c, rag_system := call_rag c\<rparr>)
       (call_request c) (call_context c)"

text \<open>The agent after a sequence of such calls.\<close>

definition execute_calls :: "agent \<Rightarrow> agent_call list \<Rightarrow> agent" where
  "execute_calls self calls = foldl (\<lambda>s c. fst (agentic_call s c)) self calls"


section \<open>Example inputs\<close>

text \<open>
  Instances of the parameters for the examples. \<open>ascii_lower\<close> agrees with \<open>str.lower\<close> on
  ASCII text; the examples raise library errors only, whose text is the text they carry,
  and format no value but \<open>None\<close>. \<open>utf8_console\<close> prints every line;
  \<open>ascii_console\<close> is a console whose encoding covers ASCII only, on which \<open>print\<close>
  raises \<open>UnicodeEncodeError\<close> for any other line.
\<close>

definition ascii_lower :: "str \<Rightarrow> str" where
  "ascii_lower s = map (\<lambda>c. if 0x41 \<le> c \<and> c \<le> 0x5A then c + 0x20 else c) s"

fun example_str_exn :: "exn \<Rightarrow> str" where
  "example_str_exn (LibraryError m) = m"
| "example_str_exn e = []"

fun example_repr :: "json \<Rightarrow> str" where
  "example_repr JNull = asc ''None''"
| "example_repr v = []"

definition utf8_console :: runtime where
  "utf8_console =
     \<lparr> str_lower = ascii_lower, str_exn = example_str_exn, repr = example_repr,
       print_line = (\<lambda>line. None) \<rparr>"



text \<open>
  A splitter that returns the whole text as one chunk, an embedding step that succeeds
  and a similarity search that returns the first \<open>k\<close> texts of the collection.
\<close>

definition example_rag_lib :: rag_lib where
  "example_rag_lib =
     \<lparr> load_error = None,
       split_text = (\<lambda>chunk_size chunk_overlap text. Inr [text]),
       from_texts_error = (\<lambda>chunks. None),
       similarity_search = (\<lambda>docs query k. Inr (take (nat k) docs)) \<rparr>"


definition example_document :: str where
  "example_document = asc ''Photosynthesis converts light energy into chemical energy in plants.''"

definition other_document :: str where
  "other_document = asc ''The French Revolution began in 1789 and ended the monarchy of France.''"

text \<open>Thirty no-break spaces followed by 45 letters: 75 characters, 45 once stripped.\<close>

definition padded_document :: str where
  "padded_document =
     [0xA0, 0xA0, 0xA0, 0xA0, 0xA0, 0xA0, 0xA0, 0xA0, 0xA0, 0xA0, 0xA0, 0xA0, 0xA0, 0xA0, 0xA0, 0xA0, 0xA0, 0xA0, 0xA0, 0xA0, 0xA0, 0xA0, 0xA0, 0xA0, 0xA0, 0xA0, 0xA0, 0xA0, 0xA0, 0xA0] @
     asc ''aaaaaaaaaaaaaaaaaaaaaaaaaaaaaaaaaaaaaaaaaaaaa''"

definition new_rag :: rag where
  "new_rag = \<lparr> vectorstore = None, embeddings = True, chunk_count = 0 \<rparr>"

definition indexed_rag :: rag where
  "indexed_rag = \<lparr> vectorstore = Some DefaultCollection, embeddings = True, chunk_count = 1 \<rparr>"

text \<open>A configured client whose hosted and local backends both answer \<open>Sorry.\<close>\<close>

definition example_llm :: llm_config where
  "example_llm =
     \<lparr> api_configured = True, config_error = [], use_groq = True,
       groq_client = Some (\<lambda>prompt. Inr (Some (asc ''Sorry.''))),
       generator = Some (\<lambda>prompt. Inr (asc ''Sorry.'')) \<rparr>"

text \<open>The arguments of an \<open>add_turn\<close> call with the given user input.\<close>

definition example_call :: "str \<Rightarrow> turn_args" where
  "example_call q =
     \<lparr> arg_now = asc ''2024-01-01T10:00:00'', arg_user_input = q, arg_agent_response = asc ''ok'',
       arg_tools_used = [asc ''concept_explainer''], arg_plan_complexity = asc ''simple'',
       arg_metadata = None \<rparr>"

text \<open>
  An environment around a given interpreter, \<open>json.loads\<close>, retrieval library and
  collection, with mode functions that label their input.
\<close>

definition example_env :: "runtime \<Rightarrow> (str \<Rightarrow> exn + json) \<Rightarrow> rag_lib \<Rightarrow> chroma \<Rightarrow> env" where
  "example_env rt loads lib db =
     \<lparr> python = rt, llm = example_llm, json_loads = loads, json_dumps = (\<lambda>results. asc ''[]''),
       rag_library = lib, chroma_collection = db,
       explain_concept = (\<lambda>concept context rs pdf. Inr (asc ''Explanation: '' @ concept)),
       summarize_text = (\<lambda>t context focus extra rs. Inr (asc ''Summary: '' @ t)),
       generate_questions = (\<lambda>t context rs. Inr (asc ''Quiz: '' @ t)),
       solve_questions = (\<lambda>q context limit rs. Inr (asc ''Solution: '' @ q)),
       evaluate_answers = (\<lambda>q a context rs. Inr (asc ''Evaluation: '' @ q)) \<rparr>"



text \<open>A plan whose first step names a tool that does not exist.\<close>

definition example_plan :: json where
  "example_plan =
     JDict [(asc ''execution_plan'',
               JList [JDict [(asc ''step'', JInt 1), (asc ''action'', JStr (asc ''Search the web'')),
                             (asc ''tool'', JStr (asc ''web_search''))],
                      JDict [(asc ''step'', JInt 2), (asc ''action'', JStr (asc ''Make a quiz'')),
                             (asc ''tool'', JStr (asc ''quiz_generator''))]]),
            (asc ''proactive_suggestions'', JList [JStr (asc ''Try a quiz'')]),
            (asc ''confidence'', JFloat (asc ''0.9''))]"


definition example_plan_loads :: "str \<Rightarrow> exn + json" where
  "example_plan_loads s = Inr example_plan"

text \<open>A call without a document, in the environment that plans \<open>example_plan\<close>.\<close>

definition example_agent_call :: "str \<Rightarrow> agent_call" where
  "example_agent_call q =
     \<lparr> call_env = example_env utf8_console example_plan_loads example_rag_lib [],
       call_rag = None, call_pdf = [], call_request = q, call_context = [] \<rparr>"


section \<open>Properties of strings\<close>

lemma asc_eq_iff [simp]: "asc s = asc t \<longleftrightarrow> s = t"
  by (simp add: asc_def inj_map_eq_map inj_on_def)

lemma asc_Nil [simp]: "asc [] = []"
  by (simp add: asc_def)

lemma asc_eq_Nil [simp]: "asc s = [] \<longleftrightarrow> s = []"
  by (simp add: asc_def)


section \<open>Properties of the tool registry\<close>

lemma tool_names:
  "name concept_explainer_tool = asc ''concept_explainer''"
  "name content_summarizer_tool = asc ''content_summarizer''"
  "name quiz_generator_tool = asc ''quiz_generator''"
  "name question_solver_tool = asc ''question_solver''"
  "name answer_evaluator_tool = asc ''answer_evaluator''"
  by (simp_all add: concept_explainer_tool_def content_summarizer_tool_def
      quiz_generator_tool_def question_solver_tool_def answer_evaluator_tool_def)

lemma tool_requires_pdf:
  "requires_pdf concept_explainer_tool = False"
  "requires_pdf content_summarizer_tool = True"
  "requires_pdf quiz_generator_tool = False"
  "requires_pdf question_solver_tool = False"
  "requires_pdf answer_evaluator_tool = False"
  by (simp_all add: concept_explainer_tool_def content_summarizer_tool_def
      quiz_generator_tool_def question_solver_tool_def answer_evaluator_tool_def)

lemma default_tools_eq:
  "default_tools =
     [(asc ''concept_explainer'', concept_explainer_tool),
      (asc ''content_summarizer'', content_summarizer_tool),
      (asc ''quiz_generator'', quiz_generator_tool),
      (asc ''question_solver'', question_solver_tool),
      (asc ''answer_evaluator'', answer_evaluator_tool)]"
  by (simp add: default_tools_def register_tool_def tool_names)

lemma default_tools_names: "map fst default_tools = tool_order"
  by (simp add: default_tools_eq tool_order_def)

lemma default_tools_registered: "registered default_tools"
proof -
  have "\<forall>t \<in> set tool_order. map_of default_tools t \<noteq> None"
    unfolding map_of_eq_None_iff default_tools_names [symmetric] by simp
  then show ?thesis by (simp add: registered_def get_tool_def list_all_iff)
qed

lemma register_tool_keys: "fst ` set tools \<subseteq> fst ` set (register_tool tools t)"
  by (force simp: register_tool_def)

lemma registered_register_tool: "registered tools \<Longrightarrow> registered (register_tool tools t)"
  using register_tool_keys [of tools t]
  by (auto simp: registered_def get_tool_def list_all_iff map_of_eq_None_iff)

lemma needs_document_default:
  "needs_document default_tools t = (t = asc ''content_summarizer'')"
  by (simp add: needs_document_def get_tool_def default_tools_eq tool_requires_pdf)

lemma keyword_suggestions_matched: "keyword_suggestions r = matched_tools r"
  by (simp add: keyword_suggestions_def matched_tools_def tool_order_def keywords_of_def)

lemma suggestions_candidates:
  "(if keyword_suggestions r = [] then [asc ''concept_explainer''] else keyword_suggestions r) =
     candidates r"
  by (simp add: candidates_def keyword_suggestions_matched)

lemma filter_no_pdf_registered:
  "\<forall>s \<in> set ss. map_of tools s \<noteq> None \<Longrightarrow>
   filter_no_pdf tools ss =
     Inr (filter (\<lambda>t. \<not> needs_document tools t \<or> t = asc ''concept_explainer'') ss)"
  by (induction ss) (auto simp: needs_document_def get_tool_def)

lemma candidates_subset: "set (candidates r) \<subseteq> set tool_order"
  by (simp add: candidates_def matched_tools_def tool_order_def)

lemma candidates_nonempty: "candidates r \<noteq> []"
  by (simp add: candidates_def)

lemma suggest_tools_registered:
  assumes "has_pdf \<or> registered tools"
  shows "suggest_tools rt tools req has_pdf =
           Inr (filter (\<lambda>t. has_pdf \<or> \<not> needs_document tools t \<or> t = asc ''concept_explainer'')
                 (candidates (str_lower rt req)))"
proof (cases has_pdf)
  case True
  then show ?thesis
    by (simp add: suggest_tools_def Let_def suggestions_candidates)
next
  case False
  with assms have "registered tools" by simp
  then have "\<forall>s \<in> set (candidates (str_lower rt req)). map_of tools s \<noteq> None"
    using candidates_subset [of "str_lower rt req"]
    by (auto simp: registered_def get_tool_def list_all_iff)
  from filter_no_pdf_registered [OF this] False show ?thesis
    by (simp add: suggest_tools_def Let_def suggestions_candidates)
qed

text \<open>
  C7 (as amended): on a registry that holds the five tools (or when a document is
  loaded), \<open>suggest_tools\<close> raises nothing and returns the tools whose keyword set matches
  the lower-cased request, in declaration order, or the explain tool alone if no keyword
  matches; without a document, the tools that the registry marks as requiring one are
  removed, the explain tool excepted. The list can be empty: it is empty exactly when no
  document is loaded and every one of these tools requires a document and is not the
  explain tool.
\<close>

theorem suggest_tools_spec:
  assumes "has_pdf \<or> registered tools"
  shows "suggest_tools rt tools req has_pdf =
           Inr (filter (\<lambda>t. has_pdf \<or> \<not> needs_document tools t \<or> t = asc ''concept_explainer'')
                 (candidates (str_lower rt req)))
       \<and> (suggest_tools rt tools req has_pdf = Inr [] \<longleftrightarrow>
            \<not> has_pdf \<and>
            (\<forall>t \<in> set (candidates (str_lower rt req)).
               needs_document tools t \<and> t \<noteq> asc ''concept_explainer''))"
proof -
  have "candidates (str_lower rt req) \<noteq> []" by (rule candidates_nonempty)
  then obtain c cs where "candidates (str_lower rt req) = c # cs"
    by (cases "candidates (str_lower rt req)") auto
  then show ?thesis
    unfolding suggest_tools_registered [OF assms]
    by (auto simp: filter_empty_conv)
qed

lemmas keyword_defs =
  explain_keywords_def summarize_keywords_def quiz_keywords_def solve_keywords_def
  evaluate_keywords_def

lemma lower_example:
  "ascii_lower (asc ''Explain recursion, then QUIZ me'') = asc ''explain recursion, then quiz me''"
  by (simp add: ascii_lower_def asc_def)

lemma candidates_example:
  "candidates (asc ''explain recursion, then quiz me'') =
     [asc ''concept_explainer'', asc ''quiz_generator'']"
  by (simp add: candidates_def matched_tools_def tool_order_def keywords_of_def any_keyword_def
      keyword_defs asc_def)

theorem suggest_tools_spec_witness:
  "suggest_tools utf8_console default_tools (asc ''Explain recursion, then QUIZ me'') False =
     Inr [asc ''concept_explainer'', asc ''quiz_generator'']"
  using suggest_tools_spec [of False default_tools utf8_console
      "asc ''Explain recursion, then QUIZ me''"]
  by (simp add: default_tools_registered utf8_console_def lower_example candidates_example
      needs_document_default)

lemma lower_summarize: "ascii_lower (asc ''summarize'') = asc ''summarize''"
  by (simp add: ascii_lower_def asc_def)

lemma candidates_summarize: "candidates (asc ''summarize'') = [asc ''content_summarizer'']"
  by (simp add: candidates_def matched_tools_def tool_order_def keywords_of_def any_keyword_def
      keyword_defs asc_def)

lemma suggest_tools_summarize:
  "suggest_tools utf8_console default_tools (asc ''summarize'') False = Inr []"
  using suggest_tools_registered [of False default_tools utf8_console "asc ''summarize''"]
  by (simp add: default_tools_registered utf8_console_def lower_summarize candidates_summarize
      needs_document_default)

text \<open>
  C7 as stated fails: for the request "summarize" without a document the only matching
  tool requires a document and is removed, so the list is empty.
\<close>

theorem suggest_tools_empty_counterexample:
  "suggest_tools utf8_console default_tools (asc ''summarize'') False = Inr []"
  by (rule suggest_tools_summarize)


section \<open>Properties of the document retriever\<close>

lemma process_pdf_short:
  "pdf_text = [] \<or> length (strip pdf_text) < 50 \<Longrightarrow>
   process_pdf rt lib db self pdf_text chunk_size chunk_overlap =
     (db, self, False, too_short_message)"
  by (simp add: process_pdf_def)

lemma rag_run_append:
  "rag_run rt lib state (pre @ post) = rag_run rt lib (rag_run rt lib state pre) post"
  by (simp add: rag_run_def)

lemma rag_run_Cons:
  "rag_run rt lib state (c # post) = rag_run rt lib (rag_step rt lib state c) post"
  by (simp add: rag_run_def)

lemma rag_step_short:
  assumes "pdf_text = [] \<or> length (strip pdf_text) < 50"
  shows "rag_step rt lib state (ProcessPdf pdf_text) = state"
proof (cases state)
  case (Pair db self)
  with process_pdf_short [OF assms] show ?thesis by simp
qed

text \<open>
  C4: a document text that is empty, or shorter than 50 characters once stripped, makes
  \<open>process_pdf\<close> return the failure flag with the too-short message whatever the splitter
  and the embedding step are (neither is called), and leaves the collection and the
  object as they were; a run of calls that contains such an upload ends in the state it
  reaches without it, so nothing of the rejected document becomes retrievable.
\<close>

theorem process_pdf_too_short:
  assumes "pdf_text = [] \<or> length (strip pdf_text) < 50"
  shows "process_pdf rt lib db self pdf_text chunk_size chunk_overlap =
           (db, self, False, too_short_message)
       \<and> rag_run rt lib (db, self) (pre @ ProcessPdf pdf_text # post) =
           rag_run rt lib (db, self) (pre @ post)"
  using assms
  by (simp add: process_pdf_short rag_run_append rag_run_Cons rag_step_short)

lemma padded_short: "length (strip padded_document) = 45"
  by (simp add: padded_document_def strip_def is_space_def whitespace_def asc_def)

theorem process_pdf_too_short_witness:
  "length padded_document = 75
   \<and> process_pdf utf8_console example_rag_lib [example_document] indexed_rag
       padded_document 1500 150 =
     ([example_document], indexed_rag, False, too_short_message)"
  using process_pdf_too_short [of padded_document utf8_console example_rag_lib
      "[example_document]" indexed_rag 1500 150 "[]" "[]"]
  by (simp add: padded_short) (simp add: padded_document_def asc_def)

lemma rag_new_example: "rag_new utf8_console example_rag_lib = Inr new_rag"
  by (simp add: rag_new_def initialize_embeddings_def example_rag_lib_def utf8_console_def
      py_print_def new_rag_def)

lemma example_document_long: "length (strip example_document) = 68"
  by (simp add: example_document_def strip_def is_space_def whitespace_def asc_def)

lemma other_document_long: "length (strip other_document) = 69"
  by (simp add: other_document_def strip_def is_space_def whitespace_def asc_def)

lemma utf8_print [simp]: "py_print utf8_console line = Inr ()"
  by (simp add: py_print_def utf8_console_def)

lemma process_pdf_example:
  assumes "50 \<le> length (strip pdf_text)" and "embeddings self"
  shows "\<exists>message.
           process_pdf utf8_console example_rag_lib db self pdf_text 1500 150 =
             (db @ [pdf_text], self\<lparr>chunk_count := 1, vectorstore := Some DefaultCollection\<rparr>,
              True, message)"
proof -
  from assms(1) have "pdf_text \<noteq> []" by (auto simp: strip_def)
  with assms show ?thesis
    by (simp add: process_pdf_def process_pdf_try_def example_rag_lib_def Let_def)
qed

lemma rag_step_example:
  assumes "50 \<le> length (strip pdf_text)" and "embeddings self"
  shows "rag_step utf8_console example_rag_lib (db, self) (ProcessPdf pdf_text) =
           (db @ [pdf_text], self\<lparr>chunk_count := 1, vectorstore := Some DefaultCollection\<rparr>)"
proof -
  from process_pdf_example [OF assms, of db] obtain message where
    "process_pdf utf8_console example_rag_lib db self pdf_text 1500 150 =
       (db @ [pdf_text], self\<lparr>chunk_count := 1, vectorstore := Some DefaultCollection\<rparr>,
        True, message)" ..
  then show ?thesis by simp
qed

lemma rag_run_Nil: "rag_run rt lib state [] = state"
  by (simp add: rag_run_def)

lemma two_uploads:
  "rag_run utf8_console example_rag_lib ([], new_rag)
     [ProcessPdf example_document, ProcessPdf other_document] =
   ([example_document, other_document], indexed_rag)"
  by (simp add: rag_run_Cons rag_run_Nil rag_step_example example_document_long
      other_document_long new_rag_def indexed_rag_def del: rag_step.simps(1))

lemma two_uploads_reset:
  "rag_run utf8_console example_rag_lib ([], new_rag)
     [ProcessPdf example_document, Reset, ProcessPdf other_document] =
   ([example_document, other_document], indexed_rag)"
  by (simp add: rag_run_Cons rag_run_Nil rag_step_example example_document_long
      other_document_long new_rag_def indexed_rag_def reset_def del: rag_step.simps(1))

lemma retrieve_both:
  \<open>retrieve_context utf8_console example_rag_lib [example_document, other_document]
     indexed_rag (asc ''revolution'') 3 =
   Inr (example_document @ asc ''

--- Retrieved Section ---

'' @ other_document)\<close>
  by (simp add: retrieve_context_def example_rag_lib_def indexed_rag_def)

text \<open>
  C3 on the code: two uploads in one process. After the second upload the collection,
  and with it every retrieval, holds the chunks of both documents; a \<open>reset\<close> between the
  uploads does not change this.
\<close>

theorem index_merges_uploads:
  \<open>rag_new utf8_console example_rag_lib = Inr new_rag
   \<and> rag_run utf8_console example_rag_lib ([], new_rag)
       [ProcessPdf example_document, ProcessPdf other_document] =
     ([example_document, other_document], indexed_rag)
   \<and> rag_run utf8_console example_rag_lib ([], new_rag)
       [ProcessPdf example_document, Reset, ProcessPdf other_document] =
     ([example_document, other_document], indexed_rag)
   \<and> is_ready indexed_rag
   \<and> retrieve_context utf8_console example_rag_lib [example_document, other_document]
       indexed_rag (asc ''revolution'') 3 =
     Inr (example_document @ asc ''

--- Retrieved Section ---

'' @ other_document)\<close>
  using rag_new_example two_uploads two_uploads_reset retrieve_both
  by (simp add: is_ready_def indexed_rag_def)


section \<open>Properties of the language-model client\<close>

text \<open>
  On a console that accepts every line, both \<open>generate_response\<close> functions return a
  string on every path: the configuration message without a configured backend, the
  reply of the backend, or the error string built from the exception of the backend.
\<close>

lemma py_print_ok: "print_line rt line = None \<Longrightarrow> py_print rt line = Inr ()"
  by (simp add: py_print_def)

lemma handlers_on_writable_console:
  assumes "\<And>line. print_line rt line = None"
  shows "groq_handler rt e = Inr (groq_error_text rt e)"
    and "local_handler rt e = Inr (local_error_text rt e)"
  by (simp_all add: groq_handler_def local_handler_def groq_error_text_def local_error_text_def
      Let_def and_then_def py_print_ok assms)

lemma tries_on_writable_console:
  assumes "\<And>line. print_line rt line = None"
  shows "groq_try rt client prompt =
           and_then (client prompt)
             (\<lambda>content. case content of None \<Rightarrow> Inl (TypeError Len JNull) | Some r \<Rightarrow> Inr r)"
    and "local_try rt gen prompt =
           and_then (gen (formatted_prompt prompt)) (\<lambda>full_text. Inr (local_reply full_text))"
  by (simp_all add: groq_try_def local_try_def local_reply_def Let_def and_then_def py_print_ok
      assms split: sum.splits option.splits)

lemma groq_generate_response_on_writable_console:
  assumes "\<And>line. print_line rt line = None"
  shows "groq_generate_response rt cfg prompt =
           Inr (if \<not> api_configured cfg then groq_no_llm_message cfg
                else
                  (case (if use_groq cfg then groq_client cfg else None) of
                     Some client \<Rightarrow>
                       (case client prompt of
                          Inl e \<Rightarrow> groq_error_text rt e
                        | Inr None \<Rightarrow> groq_error_text rt (TypeError Len JNull)
                        | Inr (Some r) \<Rightarrow> r)
                   | None \<Rightarrow>
                       (case generator cfg of
                          None \<Rightarrow> no_llm_available_message
                        | Some gen \<Rightarrow>
                            (case gen (formatted_prompt prompt) of
                               Inl e \<Rightarrow> local_error_text rt e
                             | Inr full_text \<Rightarrow> local_reply full_text))))"
  by (simp add: groq_generate_response_def handlers_on_writable_console [OF assms]
      tries_on_writable_console [OF assms] and_then_def split: sum.splits option.splits)

lemma gemini_generate_response_on_writable_console:
  assumes "\<And>line. print_line rt line = None"
  shows "gemini_generate_response rt cfg prompt =
           Inr (case (if api_configured cfg then generator cfg else None) of
                  None \<Rightarrow> gemini_no_llm_message cfg
                | Some gen \<Rightarrow>
                    (case gen (formatted_prompt prompt) of
                       Inl e \<Rightarrow> local_error_text rt e
                     | Inr full_text \<Rightarrow> local_reply full_text))"
  by (simp add: gemini_generate_response_def handlers_on_writable_console [OF assms]
      tries_on_writable_console [OF assms] and_then_def split: sum.splits option.splits)




section \<open>Properties of the planner and the agent\<close>

lemma example_reply:
  "gemini_generate_response utf8_console example_llm prompt = Inr (asc ''Sorry.'')"
  by (simp add: gemini_generate_response_def example_llm_def local_try_def and_then_def
      split_def strip_def is_space_def whitespace_def asc_def Let_def)

lemma extract_json_reply: "extract_json (asc ''Sorry.'') = Inr (asc ''Sorry.'')"
  by (simp add: extract_json_def asc_def)

lemma example_env_sel [simp]:
  "python (example_env rt loads lib db) = rt"
  "llm (example_env rt loads lib db) = example_llm"
  "json_loads (example_env rt loads lib db) = loads"
  "rag_library (example_env rt loads lib db) = lib"
  "chroma_collection (example_env rt loads lib db) = db"
  by (simp_all add: example_env_def)

lemma think_try_example:
  "think_try (example_env utf8_console loads lib db) self req ctx = loads (asc ''Sorry.'')"
  by (simp add: think_try_def example_reply extract_json_reply and_then_def)











lemma suggestions_header_nonempty: "suggestions_header \<noteq> []"
  by (simp add: suggestions_header_def asc_def)

lemma asc_newline: \<open>asc ''
'' = [0x0A]\<close>
  by (simp add: asc_def)

lemma truthy_items: "truthy v \<Longrightarrow> iterate v = Inr items \<Longrightarrow> items \<noteq> []"
  by (cases v) auto

lemma synthesize_tail:
  assumes "dict_get the_plan (asc ''proactive_suggestions'') (JList []) = Inr v"
  shows "synthesize_response env req results the_plan =
           and_then
             (if length results = 1 then and_then (item results 0) (\<lambda>r. Inr (res_result r, []))
              else and_then (gemini_generate_response (python env) (llm env)
                               (strip (synthesis_prompt env req results)))
                     (\<lambda>r. Inr (r, [strip (synthesis_prompt env req results)])))
             (\<lambda>(reply, prompts).
                and_then (suggestion_items v)
                  (\<lambda>ss. Inr (reply @ suggestions_block (python env) ss, prompts)))"
proof -
  have "(\<lambda>(reply, prompts).
          and_then (dict_get the_plan (asc ''proactive_suggestions'') (JList [])) (\<lambda>v_suggestions.
            if truthy v_suggestions then
              and_then (iterate v_suggestions) (\<lambda>items.
                Inr (reply @ suggestions_header @
                       concat (map (\<lambda>suggestion. asc ''- '' @ py_str (python env) suggestion @ asc ''
'') items),
                     prompts))
            else Inr (reply, prompts))) =
        (\<lambda>(reply, prompts).
           and_then (suggestion_items v)
             (\<lambda>ss. Inr (reply @ suggestions_block (python env) ss, prompts)))"
    using truthy_items [of v]
    by (auto simp: assms and_then_def fun_eq_iff suggestions_block_def suggestion_items_def
        asc_newline split: sum.splits)
  then show ?thesis
    unfolding synthesize_response_def Let_def by (rule arg_cong)
qed

text \<open>
  C6: for a plan with the value \<open>v\<close> under \<open>proactive_suggestions\<close>, the reply synthesized
  from the result of exactly one step is that result's text, with no prompt sent to the
  language model, followed by the block of suggestions; from any other number of results
  it is the reply of the language model to the one synthesis prompt, followed by the same
  block. The block is empty exactly when the plan has no suggestion; otherwise it is the
  heading and one bullet line for each suggestion. The suggestions of a list are its
  elements.
\<close>

theorem synthesize_response_spec:
  assumes "dict_get the_plan (asc ''proactive_suggestions'') (JList []) = Inr v"
  shows "synthesize_response env req [r] the_plan =
           and_then (suggestion_items v)
             (\<lambda>ss. Inr (res_result r @ suggestions_block (python env) ss, []))
       \<and> (length results \<noteq> 1 \<longrightarrow>
            synthesize_response env req results the_plan =
              and_then (gemini_generate_response (python env) (llm env)
                          (strip (synthesis_prompt env req results)))
                (\<lambda>reply. and_then (suggestion_items v)
                   (\<lambda>ss. Inr (reply @ suggestions_block (python env) ss,
                               [strip (synthesis_prompt env req results)]))))
       \<and> suggestion_items (JList ss) = Inr ss
       \<and> (suggestions_block (python env) ss = [] \<longleftrightarrow> ss = [])
       \<and> (ss \<noteq> [] \<longrightarrow>
            suggestions_block (python env) ss =
              suggestions_header @
              concat (map (\<lambda>s. asc ''- '' @ py_str (python env) s @ [0x0A]) ss))"
proof -
  have 1: "synthesize_response env req [r] the_plan =
           and_then (suggestion_items v)
             (\<lambda>ss. Inr (res_result r @ suggestions_block (python env) ss, []))"
    unfolding synthesize_tail [OF assms] by (simp add: item_def and_then_def)
  have 2: "synthesize_response env req results the_plan =
              and_then (gemini_generate_response (python env) (llm env)
                          (strip (synthesis_prompt env req results)))
                (\<lambda>reply. and_then (suggestion_items v)
                   (\<lambda>ss. Inr (reply @ suggestions_block (python env) ss,
                               [strip (synthesis_prompt env req results)])))"
    if "length results \<noteq> 1"
    unfolding synthesize_tail [OF assms] using that
    by (simp add: and_then_def split: sum.splits)
  have 3: "suggestions_block (python env) ss = [] \<longleftrightarrow> ss = []"
    by (simp add: suggestions_block_def suggestions_header_nonempty)
  have 4: "suggestions_block (python env) ss =
              suggestions_header @
              concat (map (\<lambda>s. asc ''- '' @ py_str (python env) s @ [0x0A]) ss)"
    if "ss \<noteq> []"
    using that by (simp add: suggestions_block_def)
  have 5: "suggestion_items (JList ss) = Inr ss"
    by (simp add: suggestion_items_def)
  from 1 2 3 4 5 show ?thesis by simp
qed

theorem synthesize_response_spec_witness:
  "synthesize_response (example_env utf8_console example_plan_loads example_rag_lib [])
     (asc ''recursion'')
     [\<lparr> res_step = JInt 1, res_action = JStr (asc ''Explain''),
        res_tool = JStr (asc ''concept_explainer''),
        res_result = asc ''Explanation: recursion'' \<rparr>] example_plan =
   Inr (asc ''Explanation: recursion'' @ suggestions_header @ asc ''- Try a quiz'' @ [0x0A], [])
   \<and> synthesize_response (example_env utf8_console example_plan_loads example_rag_lib [])
       (asc ''recursion'') [] example_plan =
     Inr (asc ''Sorry.'' @ suggestions_header @ asc ''- Try a quiz'' @ [0x0A],
          [strip (synthesis_prompt
                    (example_env utf8_console example_plan_loads example_rag_lib [])
                    (asc ''recursion'') [])])"
  using synthesize_response_spec [where the_plan = example_plan
      and v = "JList [JStr (asc ''Try a quiz'')]" and ss = "[JStr (asc ''Try a quiz'')]"
      and env = "example_env utf8_console example_plan_loads example_rag_lib []"
      and req = "asc ''recursion''"
      and r = "\<lparr> res_step = JInt 1, res_action = JStr (asc ''Explain''),
                 res_tool = JStr (asc ''concept_explainer''),
                 res_result = asc ''Explanation: recursion'' \<rparr>"
      and results = "[]"]
  by (simp add: example_plan_def example_reply and_then_def) (simp add: asc_def)

lemma execute_tool_unknown:
  assumes "tool_name \<notin> JStr ` set known_tool_names"
  shows "execute_tool env self tool_name v_input ctx =
           and_then (retrieve_pdf_context env self v_input)
             (\<lambda>c. Inr (not_found_text (python env) tool_name))"
proof -
  from assms have
    "tool_name \<noteq> JStr (asc ''concept_explainer'')"
    "tool_name \<noteq> JStr (asc ''content_summarizer'')"
    "tool_name \<noteq> JStr (asc ''quiz_generator'')"
    "tool_name \<noteq> JStr (asc ''question_solver'')"
    "tool_name \<noteq> JStr (asc ''answer_evaluator'')"
    "tool_name \<noteq> JStr (asc ''pdf_retriever'')"
    by (simp_all add: known_tool_names_def image_iff)
  then show ?thesis
    unfolding execute_tool_def not_found_text_def by (simp only: if_False)
qed

text \<open>
  Without a ready index the retrieval at the head of \<open>_execute_tool\<close> returns, and the
  result for an unknown tool name is the text that reports it; the loop of \<open>execute\<close>
  records it and goes on.
\<close>

lemma unknown_tool_reported:
  assumes "tool_name \<notin> JStr ` set known_tool_names"
    and "retrieve_pdf_context env self v_input = Inr c"
  shows "execute_tool env self tool_name v_input ctx = Inr (not_found_text (python env) tool_name)"
  using execute_tool_unknown [OF assms(1)] assms(2) by (simp add: and_then_def)

lemma run_steps_unknown:
  assumes "tool_name \<notin> JStr ` set known_tool_names"
    and "retrieve_pdf_context env self v_input = Inr c"
    and "get_or_none kvs (asc ''tool'') = tool_name"
  shows "run_steps env self v_input ctx (JDict kvs # rest) results =
           run_steps env (self\<lparr>tools_used := tools_used self @ [tool_name]\<rparr>) v_input ctx rest
             (results @
              [\<lparr> res_step = get_or_none kvs (asc ''step''),
                  res_action = get_or_none kvs (asc ''action''), res_tool = tool_name,
                  res_result = not_found_text (python env) tool_name \<rparr>])"
proof -
  from assms(3) have t:
    "(case map_of kvs (asc ''tool'') of None \<Rightarrow> JNull | Some v \<Rightarrow> v) = tool_name"
    by (simp add: get_or_none_def)
  show ?thesis
    by (simp only: run_steps.simps dict_get.simps and_then_def sum.case t
        unknown_tool_reported [OF assms(1,2)] get_or_none_def)
       simp
qed




lemma think_tools_used: "tools_used (fst (think env self req ctx)) = tools_used self"
  by (simp add: think_def split: sum.splits)

lemma run_steps_tools_used:
  "run_steps env self req ctx the_steps results = (self', Inr rs) \<Longrightarrow>
   tools_used self' = tools_used self @ map step_tool the_steps"
proof (induction the_steps arbitrary: self results)
  case Nil
  then show ?case by simp
next
  case (Cons s the_steps)
  let ?r = "and_then (dict_get s (asc ''tool'') JNull) (\<lambda>tool_name.
           and_then (dict_get s (asc ''action'') JNull) (\<lambda>v_action.
           and_then (execute_tool env self tool_name req ctx) (\<lambda>result.
           and_then (dict_get s (asc ''step'') JNull) (\<lambda>v_step.
             Inr \<lparr> res_step = v_step, res_action = v_action, res_tool = tool_name,
                   res_result = result \<rparr>))))"
  show ?case
  proof (cases ?r)
    case (Inl e)
    with Cons.prems show ?thesis by simp
  next
    case (Inr r)
    then have t: "step_tool s = res_tool r"
      by (auto simp: step_tool_def and_then_def split: sum.splits)
    from Inr Cons.prems have
      "run_steps env (self\<lparr>tools_used := tools_used self @ [res_tool r]\<rparr>) req ctx the_steps
         (results @ [r]) = (self', Inr rs)"
      by simp
    from Cons.IH [OF this] t show ?thesis by simp
  qed
qed

lemma run_steps_prefix:
  "prefix (tools_used self) (tools_used (fst (run_steps env self req ctx the_steps results)))"
proof (induction the_steps arbitrary: self results)
  case Nil
  then show ?case by simp
next
  case (Cons s the_steps)
  let ?r = "and_then (dict_get s (asc ''tool'') JNull) (\<lambda>tool_name.
           and_then (dict_get s (asc ''action'') JNull) (\<lambda>v_action.
           and_then (execute_tool env self tool_name req ctx) (\<lambda>result.
           and_then (dict_get s (asc ''step'') JNull) (\<lambda>v_step.
             Inr \<lparr> res_step = v_step, res_action = v_action, res_tool = tool_name,
                   res_result = result \<rparr>))))"
  show ?case
  proof (cases ?r)
    case (Inl e)
    then show ?thesis by simp
  next
    case (Inr r)
    have "prefix (tools_used self @ [res_tool r])
            (tools_used (fst (run_steps env (self\<lparr>tools_used := tools_used self @ [res_tool r]\<rparr>)
                                req ctx the_steps (results @ [r]))))"
      using Cons.IH [of "self\<lparr>tools_used := tools_used self @ [res_tool r]\<rparr>" "results @ [r]"]
      by simp
    then have "prefix (tools_used self)
            (tools_used (fst (run_steps env (self\<lparr>tools_used := tools_used self @ [res_tool r]\<rparr>)
                                req ctx the_steps (results @ [r]))))"
      by (rule append_prefixD)
    with Inr show ?thesis by simp
  qed
qed

lemma execute_prefix:
  "prefix (tools_used self) (tools_used (fst (execute env self req ctx)))"
proof -
  obtain s1 p where T: "think env self req ctx = (s1, p)" by (cases "think env self req ctx")
  with think_tools_used [of env self req ctx] have s1: "tools_used s1 = tools_used self" by simp
  show ?thesis
  proof (cases "and_then (dict_get p (asc ''execution_plan'') (JList [])) iterate")
    case (Inl e)
    with T s1 show ?thesis by (simp add: execute_def)
  next
    case (Inr the_steps)
    obtain s2 r2 where R: "run_steps env s1 req ctx the_steps [] = (s2, r2)"
      by (cases "run_steps env s1 req ctx the_steps []")
    with run_steps_prefix [of s1 env req ctx the_steps "[]"] s1
    have "prefix (tools_used self) (tools_used s2)" by simp
    with T Inr R show ?thesis by (cases r2) (simp_all add: execute_def)
  qed
qed

lemma agentic_call_prefix:
  "prefix (tools_used self) (tools_used (fst (agentic_call self c)))"
  using execute_prefix [of "self\<lparr>pdf_content := call_pdf c, rag_system := call_rag c\<rparr>"
      "call_env c" "call_request c" "call_context c"]
  by (simp add: agentic_call_def)

lemma execute_calls_snoc:
  "execute_calls self (calls @ [c]) = fst (agentic_call (execute_calls self calls) c)"
  by (simp add: execute_calls_def)

lemma execute_calls_prefix:
  "prefix (tools_used self) (tools_used (execute_calls self calls))"
proof (induction calls rule: rev_induct)
  case Nil
  then show ?case by (simp add: execute_calls_def)
next
  case (snoc c calls)
  from snoc agentic_call_prefix [of "execute_calls self calls" c]
  show ?case unfolding execute_calls_snoc by (rule prefix_order.trans)
qed

lemma execute_tools_used:
  assumes "execute env self req ctx = (self', Inr res)"
  shows "result_tools_used res = tools_used self @ plan_tools (plan res)"
    and "tools_used self' = result_tools_used res"
proof -
  obtain s1 p where T: "think env self req ctx = (s1, p)" by (cases "think env self req ctx")
  with think_tools_used [of env self req ctx] have s1: "tools_used s1 = tools_used self" by simp
  show "result_tools_used res = tools_used self @ plan_tools (plan res)"
    and "tools_used self' = result_tools_used res"
  proof (atomize (full), cases "and_then (dict_get p (asc ''execution_plan'') (JList [])) iterate")
    case (Inl e)
    with T assms show "result_tools_used res = tools_used self @ plan_tools (plan res)
      \<and> tools_used self' = result_tools_used res"
      by (simp add: execute_def)
  next
    case (Inr the_steps)
    obtain s2 r2 where R: "run_steps env s1 req ctx the_steps [] = (s2, r2)"
      by (cases "run_steps env s1 req ctx the_steps []")
    show "result_tools_used res = tools_used self @ plan_tools (plan res)
      \<and> tools_used self' = result_tools_used res"
    proof (cases r2)
      case (Inl e)
      with T Inr R assms show ?thesis by (simp add: execute_def)
    next
      case r2: (Inr results)
      with R have R': "run_steps env s1 req ctx the_steps [] = (s2, Inr results)" by simp
      from run_steps_tools_used [OF R'] s1
      have u: "tools_used s2 = tools_used self @ map step_tool the_steps" by simp
      from T Inr R' assms have "self' = s2" "result_tools_used res = tools_used s2" "plan res = p"
        by (auto simp: execute_def and_then_def split: sum.splits prod.splits)
      with u Inr show ?thesis by (simp add: plan_tools_def)
    qed
  qed
qed

lemma agentic_call_tools_used:
  assumes "agentic_call self c = (self', Inr res)"
  shows "result_tools_used res = tools_used self @ plan_tools (plan res)
       \<and> tools_used self' = result_tools_used res"
  using execute_tools_used [of "call_env c"
      "self\<lparr>pdf_content := call_pdf c, rag_system := call_rag c\<rparr>"
      "call_request c" "call_context c" self' res] assms
  by (simp add: agentic_call_def)

text \<open>
  C10: \<open>tools_used\<close> is never cleared. Over any sequence of calls on one agent the list
  only grows at its end, whether the calls return or raise; and when the next call
  returns, the list it returns is the list as the earlier calls left it, followed by the
  tool names of the steps of the plan of this request, and is the list the agent keeps.
\<close>

theorem tools_used_accumulates:
  "prefix (tools_used self) (tools_used (execute_calls self calls))
   \<and> (agentic_call (execute_calls self calls) c = (self', Inr res) \<longrightarrow>
        result_tools_used res = tools_used (execute_calls self calls) @ plan_tools (plan res)
      \<and> tools_used self' = result_tools_used res)"
  using execute_calls_prefix agentic_call_tools_used by blast

lemma example_plan_steps:
  "and_then (dict_get example_plan (asc ''execution_plan'') (JList [])) iterate =
     Inr [JDict [(asc ''step'', JInt 1), (asc ''action'', JStr (asc ''Search the web'')),
                 (asc ''tool'', JStr (asc ''web_search''))],
          JDict [(asc ''step'', JInt 2), (asc ''action'', JStr (asc ''Make a quiz'')),
                 (asc ''tool'', JStr (asc ''quiz_generator''))]]"
  by (simp add: example_plan_def and_then_def)

lemma example_plan_tools:
  "plan_tools example_plan = [JStr (asc ''web_search''), JStr (asc ''quiz_generator'')]"
  by (simp add: plan_tools_def example_plan_steps step_tool_def)

lemma example_tool_results:
  "rag_system self = None \<Longrightarrow> pdf_content self = [] \<Longrightarrow>
   execute_tool (example_env utf8_console loads lib db) self (JStr (asc ''web_search'')) req ctx =
     Inr (asc ''Tool web_search not found. Using default response.'')"
  "rag_system self = None \<Longrightarrow> pdf_content self = [] \<Longrightarrow>
   execute_tool (example_env utf8_console loads lib db) self (JStr (asc ''quiz_generator'')) req ctx =
     Inr (asc ''Quiz: '' @ req)"
  by (simp_all add: execute_tool_def retrieve_pdf_context_def rag_ready_def and_then_def
      example_env_def asc_def)

lemma example_execute:
  assumes "rag_system self = None" and "pdf_content self = []"
  shows "\<exists>res. execute (example_env utf8_console example_plan_loads lib db) self req ctx =
           (self\<lparr>current_plan := Some example_plan,
                 tools_used := tools_used self @
                   [JStr (asc ''web_search''), JStr (asc ''quiz_generator'')]\<rparr>, Inr res)
         \<and> plan res = example_plan"
proof -
  let ?env = "example_env utf8_console example_plan_loads lib db"
  have t: "think ?env self req ctx = (self\<lparr>current_plan := Some example_plan\<rparr>, example_plan)"
    by (simp add: think_def think_try_example example_plan_loads_def)
  have r: "\<exists>results.
        run_steps ?env (self\<lparr>current_plan := Some example_plan\<rparr>) req ctx
          [JDict [(asc ''step'', JInt 1), (asc ''action'', JStr (asc ''Search the web'')),
                  (asc ''tool'', JStr (asc ''web_search''))],
           JDict [(asc ''step'', JInt 2), (asc ''action'', JStr (asc ''Make a quiz'')),
                  (asc ''tool'', JStr (asc ''quiz_generator''))]] [] =
        (self\<lparr>current_plan := Some example_plan,
              tools_used := tools_used self @
                [JStr (asc ''web_search''), JStr (asc ''quiz_generator'')]\<rparr>, Inr results)
        \<and> length results = 2"
    by (simp add: and_then_def example_tool_results assms)
  then obtain results where r':
      "run_steps ?env (self\<lparr>current_plan := Some example_plan\<rparr>) req ctx
          [JDict [(asc ''step'', JInt 1), (asc ''action'', JStr (asc ''Search the web'')),
                  (asc ''tool'', JStr (asc ''web_search''))],
           JDict [(asc ''step'', JInt 2), (asc ''action'', JStr (asc ''Make a quiz'')),
                  (asc ''tool'', JStr (asc ''quiz_generator''))]] [] =
        (self\<lparr>current_plan := Some example_plan,
              tools_used := tools_used self @
                [JStr (asc ''web_search''), JStr (asc ''quiz_generator'')]\<rparr>, Inr results)"
      and l: "length results = 2" by blast
  have d: "dict_get example_plan (asc ''proactive_suggestions'') (JList []) =
             Inr (JList [JStr (asc ''Try a quiz'')])"
    by (simp add: example_plan_def)
  have s: "\<exists>reply. synthesize_response ?env req results example_plan = Inr (reply, prompts)"
    if "prompts = [strip (synthesis_prompt ?env req results)]" for prompts
    unfolding synthesize_tail [OF d] using l that
    by (simp add: example_reply and_then_def suggestion_items_def)
  then obtain reply where s':
    "synthesize_response ?env req results example_plan =
       Inr (reply, [strip (synthesis_prompt ?env req results)])" by blast
  have x: "dict_get example_plan (asc ''execution_plan'') (JList []) =
     Inr (JList [JDict [(asc ''step'', JInt 1), (asc ''action'', JStr (asc ''Search the web'')),
                        (asc ''tool'', JStr (asc ''web_search''))],
                 JDict [(asc ''step'', JInt 2), (asc ''action'', JStr (asc ''Make a quiz'')),
                        (asc ''tool'', JStr (asc ''quiz_generator''))]])"
    by (simp add: example_plan_def)
  show ?thesis
    unfolding execute_def t
    by (simp add: x r' s' d and_then_def del: run_steps.simps)
qed

lemma example_agentic_call:
  "\<exists>res. agentic_call self (example_agent_call q) =
           (self\<lparr>pdf_content := [], rag_system := None, current_plan := Some example_plan,
                 tools_used := tools_used self @
                   [JStr (asc ''web_search''), JStr (asc ''quiz_generator'')]\<rparr>, Inr res)
         \<and> plan res = example_plan"
  using example_execute [of "self\<lparr>pdf_content := [], rag_system := None\<rparr>" example_rag_lib "[]"
      q "[]"]
  by (simp add: agentic_call_def example_agent_call_def)

theorem tools_used_accumulates_witness:
  "\<exists>self' res.
     agentic_call (execute_calls (agent_init None []) [example_agent_call (asc ''recursion'')])
       (example_agent_call (asc ''graphs'')) = (self', Inr res)
     \<and> result_tools_used res =
         [JStr (asc ''web_search''), JStr (asc ''quiz_generator''),
          JStr (asc ''web_search''), JStr (asc ''quiz_generator'')]"
proof -
  let ?a1 = "execute_calls (agent_init None []) [example_agent_call (asc ''recursion'')]"
  from example_agentic_call [of "agent_init None []" "asc ''recursion''"]
  have a1: "tools_used ?a1 = [JStr (asc ''web_search''), JStr (asc ''quiz_generator'')]"
    by (auto simp: execute_calls_def agent_init_def)
  from example_agentic_call [of ?a1 "asc ''graphs''"]
  obtain self2 res2 where
    e2: "agentic_call ?a1 (example_agent_call (asc ''graphs'')) = (self2, Inr res2)"
    and p2: "plan res2 = example_plan"
    by blast
  from tools_used_accumulates [of "agent_init None []" "[example_agent_call (asc ''recursion'')]"
      "example_agent_call (asc ''graphs'')" self2 res2] e2
  have "result_tools_used res2 = tools_used ?a1 @ plan_tools (plan res2)" by simp
  then have "result_tools_used res2 =
         [JStr (asc ''web_search''), JStr (asc ''quiz_generator''),
          JStr (asc ''web_search''), JStr (asc ''quiz_generator'')]"
    by (simp add: p2 example_plan_tools a1)
  with e2 show ?thesis by blast
qed


section \<open>Properties of the conversation memory\<close>

lemma last_n_rev: "last_n n xs = rev (take n (rev xs))"
  by (simp add: last_n_def take_rev)

lemma last_n_append: "last_n n (last_n n xs @ ys) = last_n n (xs @ ys)"
  by (simp add: last_n_rev min_def)

lemma length_last_n: "length (last_n n xs) \<le> n"
  by (simp add: last_n_def)

lemma update_context_conversation [simp]:
  "conversation (update_context m) = conversation m" "max_turns (update_context m) = max_turns m"
  by (simp_all add: update_context_def Let_def)

lemma add_turn_args_conversation:
  assumes "0 \<le> max_turns m" and "length (conversation m) \<le> nat (max_turns m)"
  shows "conversation (add_turn_args m a) = last_n (nat (max_turns m)) (conversation m @ [turn_of a])"
proof -
  let ?c = "conversation m @ [turn_of a]"
  have "conversation (add_turn_args m a) =
          (if int (length ?c) > max_turns m then tl ?c else ?c)"
    by (simp add: add_turn_args_def add_turn_def turn_of_def Let_def)
  also have "\<dots> = last_n (nat (max_turns m)) ?c"
  proof (cases "int (length ?c) > max_turns m")
    case True
    with assms have "length ?c - nat (max_turns m) = 1" by simp
    then have "last_n (nat (max_turns m)) ?c = drop 1 ?c" by (simp only: last_n_def)
    also have "\<dots> = tl ?c" by (simp only: One_nat_def drop_Suc drop_0)
    finally show ?thesis using True by simp
  next
    case False
    then show ?thesis by (simp add: last_n_def)
  qed
  finally show ?thesis .
qed

lemma add_turn_args_max_turns [simp]: "max_turns (add_turn_args m a) = max_turns m"
  by (simp add: add_turn_args_def add_turn_def Let_def)

lemma add_turns_conversation:
  assumes "0 \<le> max_turns m" and "length (conversation m) \<le> nat (max_turns m)"
  shows "conversation (add_turns m calls) =
           last_n (nat (max_turns m)) (conversation m @ map turn_of calls)
         \<and> max_turns (add_turns m calls) = max_turns m"
  using assms
proof (induction calls arbitrary: m)
  case Nil
  then show ?case by (simp add: add_turns_def last_n_def)
next
  case (Cons a calls)
  let ?m = "add_turn_args m a"
  have c: "conversation ?m = last_n (nat (max_turns m)) (conversation m @ [turn_of a])"
    using Cons.prems by (rule add_turn_args_conversation)
  have "0 \<le> max_turns ?m" using Cons.prems by simp
  moreover from c have "length (conversation ?m) \<le> nat (max_turns ?m)"
    by (simp add: length_last_n)
  ultimately have "conversation (add_turns ?m calls) =
           last_n (nat (max_turns ?m)) (conversation ?m @ map turn_of calls)
         \<and> max_turns (add_turns ?m calls) = max_turns ?m"
    by (rule Cons.IH)
  moreover have "add_turns m (a # calls) = add_turns ?m calls"
    by (simp add: add_turns_def)
  ultimately show ?case
    using last_n_append [of "nat (max_turns m)" "conversation m @ [turn_of a]" "map turn_of calls"]
    by (simp add: c)
qed

text \<open>
  C2: after any sequence of \<open>add_turn\<close> calls on a new \<open>ShortTermMemory\<close> with window size
  \<open>n\<close>, the conversation holds the last \<open>n\<close> turns added, in insertion order, hence never
  more than \<open>n\<close> turns; after \<open>n + 1\<close> calls it holds the turns of all calls but the first,
  and the first turn is absent (the turns being distinct).
\<close>

theorem conversation_window:
  assumes "0 \<le> n"
  shows "conversation (add_turns (short_term_memory_init n) calls) = last_n (nat n) (map turn_of calls)
       \<and> int (length (conversation (add_turns (short_term_memory_init n) calls))) \<le> n
       \<and> (length calls = nat n + 1 \<longrightarrow>
            conversation (add_turns (short_term_memory_init n) calls) = map turn_of (tl calls)
          \<and> (distinct (map turn_of calls) \<longrightarrow>
               turn_of (hd calls) \<notin> set (conversation (add_turns (short_term_memory_init n) calls))))"
proof -
  let ?m = "short_term_memory_init n"
  have m: "max_turns ?m = n" "conversation ?m = []"
    by (simp_all add: short_term_memory_init_def)
  with assms add_turns_conversation [of ?m calls]
  have c: "conversation (add_turns ?m calls) = last_n (nat n) (map turn_of calls)"
    by simp
  have l: "int (length (conversation (add_turns ?m calls))) \<le> n"
    using length_last_n [of "nat n" "map turn_of calls"] assms by (simp add: c)
  have t: "conversation (add_turns ?m calls) = map turn_of (tl calls)
          \<and> (distinct (map turn_of calls) \<longrightarrow>
               turn_of (hd calls) \<notin> set (conversation (add_turns ?m calls)))"
    if len: "length calls = nat n + 1"
  proof -
    from len obtain a rest where calls: "calls = a # rest" by (cases calls) auto
    with len have "length rest = nat n" by simp
    then have "last_n (nat n) (map turn_of calls) = map turn_of rest"
      by (simp add: last_n_def calls)
    with c calls show ?thesis by auto
  qed
  from c l t show ?thesis by blast
qed

theorem conversation_window_witness:
  "conversation (add_turns (short_term_memory_init 2)
      [example_call (asc ''a''), example_call (asc ''b''), example_call (asc ''c'')]) =
     [turn_of (example_call (asc ''b'')), turn_of (example_call (asc ''c''))]
   \<and> turn_of (example_call (asc ''a'')) \<notin> set (conversation (add_turns (short_term_memory_init 2)
      [example_call (asc ''a''), example_call (asc ''b''), example_call (asc ''c'')]))"
  using conversation_window [of 2 "[example_call (asc ''a''), example_call (asc ''b''), example_call (asc ''c'')]"]
  by (simp add: turn_of_def example_call_def last_n_def)

end
